theory Spec2Isabelle
  imports Complex_Main
begin

section \<open>pyTailgating: the car-following controller of \<^verbatim>\<open>pyTailgating.py\<close>\<close>

text \<open>
  The program is a single Python module: module-level configuration constants, the classes
  \<^verbatim>\<open>PIDController\<close> and \<^verbatim>\<open>Car\<close>, and the function \<^verbatim>\<open>main\<close> whose
  \<^verbatim>\<open>while running\<close> loop reads the clock and the keyboard, moves the lead car, runs the
  follower's control law and draws the scene.

  Numbers: in the model of the loop Python's \<^verbatim>\<open>float\<close> and \<^verbatim>\<open>int\<close> values are
  \<^typ>\<open>real\<close> numbers (exact arithmetic, no rounding, no overflow, no NaN); the only
  non-finite value the source creates on purpose, \<^verbatim>\<open>float("inf")\<close> for the time to
  contact, has a constructor of its own. The jerk limit of lines 211--213 is modelled a
  second time with the rounding of binary64 arithmetic (\<open>jerk_limit_float\<close>), because its
  bound is attained whenever the limiter clamps and so turns on that rounding. Raised
  exceptions are values of \<open>py_error\<close>. Drawing (\<^verbatim>\<open>Car.draw\<close>, the road lines, the HUD)
  has no effect on the state and is left out.
\<close>

subsection \<open>Configuration (lines 9--56)\<close>

datatype py_error = ZeroDivisionError | IndexError | KeyError

definition WIDTH :: int where "WIDTH = 1000"
definition HEIGHT :: int where "HEIGHT = 400"
definition FPS :: int where "FPS = 60"

definition PROFILES :: "(string \<times> real) list" where
  "PROFILES =
    [(''im too young to die'', 0.0),
     (''new driver'', 0.1),
     (''kids onboard'', 0.15),
     (''elderly'', 0.2),
     (''cheap junk'', 0.3),
     (''still civilized'', 0.4),
     (''in a hurry'', 0.5),
     (''well ok...'', 0.6),
     (''nurburgring'', 0.7),
     (''alligator tailgator'', 0.8),
     (''Bayerische Motoren Werke'', 0.9),
     (''rushing crap to the tannery'', 1.0)]"

text \<open>\<^verbatim>\<open>PROFILES[key]\<close>: a dictionary lookup that raises \<^verbatim>\<open>KeyError\<close> on a missing key.\<close>

definition PROFILES_getitem :: "string \<Rightarrow> py_error + real" where
  "PROFILES_getitem k = (case map_of PROFILES k of None \<Rightarrow> Inl KeyError | Some v \<Rightarrow> Inr v)"

text \<open>\<^verbatim>\<open>profile = PROFILES["well ok..."]\<close>; the key is present, so the projection is total here
  (lemma \<open>profile_lookup\<close> below).\<close>

definition profile :: real where
  "profile = projr (PROFILES_getitem ''well ok...'')"

definition TARGET_DISTANCE :: real where "TARGET_DISTANCE = 150 - 5 * profile"
definition DEADBAND :: real where "DEADBAND = 6"

definition MAX_SPEED :: real where "MAX_SPEED = 350"
definition MAX_ACCEL :: real where "MAX_ACCEL = 100"
definition MAX_BRAKE :: real where "MAX_BRAKE = - 300"
definition MAX_JERK :: real where "MAX_JERK = 1000"

definition REACTION_TIME :: real where "REACTION_TIME = 0.5"

definition STANDSTILL_DISTANCE :: real where "STANDSTILL_DISTANCE = 25"
definition TIME_HEADWAY :: real where "TIME_HEADWAY = 1.8 - profile"

definition DESIRED_TTC :: real where "DESIRED_TTC = 2.6 - profile"
definition MIN_TTC :: real where "MIN_TTC = 1.5 - profile"
definition TTC_GAIN :: real where "TTC_GAIN = 600"

subsection \<open>Python arithmetic that can fail or truncate\<close>

text \<open>\<^verbatim>\<open>a / b\<close> raises \<^verbatim>\<open>ZeroDivisionError\<close> when \<^verbatim>\<open>b\<close> is zero.\<close>

definition truediv :: "real \<Rightarrow> real \<Rightarrow> py_error + real" where
  "truediv a b = (if b = 0 then Inl ZeroDivisionError else Inr (a / b))"

text \<open>\<^verbatim>\<open>int(v)\<close> on a float truncates towards zero.\<close>

definition py_int :: "real \<Rightarrow> int" where
  "py_int v = (if v < 0 then \<lceil>v\<rceil> else \<lfloor>v\<rfloor>)"

subsection \<open>\<^verbatim>\<open>class PIDController\<close> (lines 58--78)\<close>

record PIDController =
  kp :: real
  ki :: real
  kd :: real
  integral :: real
  prev_error :: real

definition PID_init :: "real \<Rightarrow> real \<Rightarrow> real \<Rightarrow> PIDController" where
  "PID_init p i d = \<lparr>kp = p, ki = i, kd = d, integral = 0, prev_error = 0\<rparr>"

text \<open>\<^verbatim>\<open>update\<close> returns its output together with the mutated object. The integral is
  accumulated first (line 67), the derivative is guarded by \<^verbatim>\<open>dt > 0\<close> (line 68).\<close>

definition PID_update :: "PIDController \<Rightarrow> real \<Rightarrow> real \<Rightarrow> py_error + (real \<times> PIDController)" where
  "PID_update self err dt =
    (let integral1 = integral self + err * dt in
     case (if dt > 0 then truediv (err - prev_error self) dt else Inr 0) of
       Inl e \<Rightarrow> Inl e
     | Inr derivative \<Rightarrow>
         Inr (kp self * err + ki self * integral1 + kd self * derivative,
              self\<lparr>integral := integral1, prev_error := err\<rparr>))"

definition PID_reset :: "PIDController \<Rightarrow> PIDController" where
  "PID_reset self = self\<lparr>integral := 0, prev_error := 0\<rparr>"

subsection \<open>\<^verbatim>\<open>class Car\<close> (lines 80--90)\<close>

record Car =
  car_x :: real
  car_y :: real
  car_speed :: real
  car_color :: "nat \<times> nat \<times> nat"

definition Car_init :: "real \<Rightarrow> real \<Rightarrow> nat \<times> nat \<times> nat \<Rightarrow> Car" where
  "Car_init x0 y0 c = \<lparr>car_x = x0, car_y = y0, car_speed = 0, car_color = c\<rparr>"

definition Car_update :: "Car \<Rightarrow> real \<Rightarrow> real \<Rightarrow> Car" where
  "Car_update self accel dt =
    (let speed1 = car_speed self + accel * dt;
         speed2 = max 0 (min speed1 MAX_SPEED)
     in self\<lparr>car_speed := speed2, car_x := car_x self + speed2 * dt\<rparr>)"

subsection \<open>The delayed perception (lines 162--168)\<close>

text \<open>One entry of \<^verbatim>\<open>reaction_buffer\<close>: the dictionary with the keys
  \<^verbatim>\<open>"distance"\<close> and \<^verbatim>\<open>"rel_speed"\<close>.\<close>

record sample =
  s_distance :: real
  s_rel_speed :: real

definition max_len :: int where
  "max_len = py_int (REACTION_TIME * real_of_int FPS)"

text \<open>\<^verbatim>\<open>append\<close>, then \<^verbatim>\<open>popleft\<close> when the deque has become longer than
  \<^verbatim>\<open>max_len\<close>. The deque is a list with its left end first.\<close>

definition reaction_push :: "sample list \<Rightarrow> sample \<Rightarrow> sample list" where
  "reaction_push buf smp =
    (let buf1 = buf @ [smp]
     in if int (length buf1) > max_len then tl buf1 else buf1)"

text \<open>\<^verbatim>\<open>reaction_buffer[0]\<close> raises \<^verbatim>\<open>IndexError\<close> on an empty deque.\<close>

definition buffer_front :: "sample list \<Rightarrow> py_error + sample" where
  "buffer_front buf = (case buf of [] \<Rightarrow> Inl IndexError | p # _ \<Rightarrow> Inr p)"

subsection \<open>Time to contact (lines 174--177)\<close>

datatype ttc = Finite real | PosInf

definition compute_ttc :: "real \<Rightarrow> real \<Rightarrow> py_error + ttc" where
  "compute_ttc distance rel =
    (if rel > 0 then (case truediv distance rel of Inl e \<Rightarrow> Inl e | Inr q \<Rightarrow> Inr (Finite q))
     else Inr PosInf)"

text \<open>\<^verbatim>\<open>ttc < bound\<close> for a finite bound: false for \<^verbatim>\<open>inf\<close>.\<close>

fun ttc_less :: "ttc \<Rightarrow> real \<Rightarrow> bool" where
  "ttc_less (Finite t) b = (t < b)"
| "ttc_less PosInf b = False"

subsection \<open>Mode arbitration (lines 179--209)\<close>

text \<open>The three values the arbitration works on: \<^verbatim>\<open>desired_accel\<close> and the two
  controllers.\<close>

type_synonym law_state = "real \<times> PIDController \<times> PIDController"

text \<open>Lines 183--186: inside the deadband both controllers are reset and
  \<^verbatim>\<open>desired_accel\<close> is set to 0; otherwise nothing changes.\<close>

definition deadband_step :: "law_state \<Rightarrow> real \<Rightarrow> law_state" where
  "deadband_step st distance_error =
    (case st of (desired_accel, pid_accel, pid_brake) \<Rightarrow>
       if \<bar>distance_error\<bar> < DEADBAND
       then (0, PID_reset pid_accel, PID_reset pid_brake)
       else (desired_accel, pid_accel, pid_brake))"

text \<open>Lines 195--204, entered with a finite \<^verbatim>\<open>ttc\<close> below \<^verbatim>\<open>DESIRED_TTC\<close>, after
  \<^verbatim>\<open>pid_accel.reset()\<close>.\<close>

definition ttc_branch :: "law_state \<Rightarrow> real \<Rightarrow> real \<Rightarrow> real \<Rightarrow> py_error + law_state" where
  "ttc_branch st t distance_error dt =
    (case st of (desired_accel, pid_accel, pid_brake) \<Rightarrow>
       if t < MIN_TTC then Inr (MAX_BRAKE, pid_accel, pid_brake)
       else
         (let ttc_error = DESIRED_TTC - t;
              desired1 = - TTC_GAIN * ttc_error
          in case PID_update pid_brake distance_error dt of
               Inl e \<Rightarrow> Inl e
             | Inr (trim, pid_brake1) \<Rightarrow>
                 Inr (max (desired1 + trim) MAX_BRAKE, pid_accel, pid_brake1)))"

text \<open>Lines 206--209, the final \<^verbatim>\<open>else\<close>.\<close>

definition cruise_branch :: "law_state \<Rightarrow> real \<Rightarrow> real \<Rightarrow> py_error + law_state" where
  "cruise_branch st distance_error dt =
    (case st of (desired_accel, pid_accel, pid_brake) \<Rightarrow>
       (case PID_update pid_accel distance_error dt of
          Inl e \<Rightarrow> Inl e
        | Inr (out, pid_accel1) \<Rightarrow>
            Inr (min out MAX_ACCEL, pid_accel1, PID_reset pid_brake)))"

text \<open>Lines 188--209: the \<^verbatim>\<open>if / elif / else\<close> chain that follows the deadband test.
  \<^verbatim>\<open>inf < DESIRED_TTC\<close> is false, so an infinite \<^verbatim>\<open>ttc\<close> goes to the final
  \<^verbatim>\<open>else\<close>.\<close>

definition branch_step ::
  "law_state \<Rightarrow> real \<Rightarrow> real \<Rightarrow> ttc \<Rightarrow> real \<Rightarrow> real \<Rightarrow> py_error + law_state" where
  "branch_step st distance min_follow_distance tc distance_error dt =
    (case st of (desired_accel, pid_accel, pid_brake) \<Rightarrow>
       if distance < min_follow_distance
       then Inr (MAX_BRAKE, PID_reset pid_accel, pid_brake)
       else if ttc_less tc DESIRED_TTC
       then (case tc of
               Finite t \<Rightarrow> ttc_branch (desired_accel, PID_reset pid_accel, pid_brake) t distance_error dt
             | PosInf \<Rightarrow> cruise_branch st distance_error dt)
       else cruise_branch st distance_error dt)"

text \<open>Lines 170--209: from the perceived sample, the follower's speed and \<^verbatim>\<open>dt\<close> to the
  proposed acceleration (the value of \<^verbatim>\<open>desired_accel\<close> before the jerk limit), the two
  controllers as they are left, and the time to contact.\<close>

definition control_law ::
  "PIDController \<Rightarrow> PIDController \<Rightarrow> sample \<Rightarrow> real \<Rightarrow> real \<Rightarrow> py_error + (law_state \<times> ttc)" where
  "control_law pid_accel pid_brake perc follower_speed dt =
    (let distance = s_distance perc;
         rel = s_rel_speed perc;
         min_follow_distance = STANDSTILL_DISTANCE + follower_speed * TIME_HEADWAY
     in case compute_ttc distance rel of
          Inl e \<Rightarrow> Inl e
        | Inr tc \<Rightarrow>
            (let desired_accel = 0;
                 distance_error = distance - max TARGET_DISTANCE min_follow_distance;
                 st1 = deadband_step (desired_accel, pid_accel, pid_brake) distance_error
             in case branch_step st1 distance min_follow_distance tc distance_error dt of
                  Inl e \<Rightarrow> Inl e
                | Inr st2 \<Rightarrow> Inr (st2, tc)))"

subsection \<open>Jerk limit (lines 211--213)\<close>

text \<open>Lines 211--212 in exact arithmetic, as the model of the loop uses them.\<close>

definition jerk_limit :: "real \<Rightarrow> real \<Rightarrow> real \<Rightarrow> real" where
  "jerk_limit last_acc desired_accel dt =
    (let max_delta = MAX_JERK * dt
     in max (last_acc - max_delta) (min (last_acc + max_delta) desired_accel))"

subsection \<open>Jerk limit in binary64 arithmetic (lines 136, 211--213)\<close>

text \<open>
  Python's \<^verbatim>\<open>float\<close> is IEEE 754 binary64, and each arithmetic operation returns the
  exact result rounded to the nearest binary64 number, ties to the one with even
  significand. \<open>round_even\<close> is the nearest integer with ties to even; \<open>ulp_exponent x\<close>
  is the exponent of the spacing of the binary64 numbers around \<open>x\<close> (52 below the exponent
  of \<open>x\<close>, and \<open>-1074\<close> in the subnormal range); \<open>binary64 x\<close> is \<open>x\<close> rounded.
  Overflow to infinity is not represented: above the binary64 range the function keeps
  rounding to 53 significant bits.
\<close>

definition round_even :: "real \<Rightarrow> int" where
  "round_even y =
    (let f = \<lfloor>y\<rfloor>; r = y - real_of_int f
     in if r < 1 / 2 then f else if 1 / 2 < r then f + 1 else if even f then f else f + 1)"

definition ulp_exponent :: "real \<Rightarrow> int" where
  "ulp_exponent x = max \<lfloor>log 2 \<bar>x\<bar>\<rfloor> (- 1022) - 52"

definition binary64 :: "real \<Rightarrow> real" where
  "binary64 x =
    (if x = 0 then 0
     else real_of_int (round_even (x / 2 powr real_of_int (ulp_exponent x)))
            * 2 powr real_of_int (ulp_exponent x))"

text \<open>The relative rounding error of binary64 and half the least subnormal number.\<close>

definition unit_roundoff :: real where "unit_roundoff = 1 / 2 ^ 53"
definition half_least_subnormal :: real where "half_least_subnormal = 1 / 2 ^ 1075"

text \<open>Lines 211--212 as Python computes them: the product \<^verbatim>\<open>MAX_JERK * dt\<close>, the
  difference \<^verbatim>\<open>last_accel - max_delta\<close> and the sum \<^verbatim>\<open>last_accel + max_delta\<close> are
  rounded; \<^verbatim>\<open>max\<close> and \<^verbatim>\<open>min\<close> return one of their arguments.\<close>

definition jerk_limit_float :: "real \<Rightarrow> real \<Rightarrow> real \<Rightarrow> real" where
  "jerk_limit_float last_acc desired_accel dt =
    (let max_delta = binary64 (MAX_JERK * dt)
     in max (binary64 (last_acc - max_delta)) (min (binary64 (last_acc + max_delta)) desired_accel))"

text \<open>The limiter over successive passes: \<^verbatim>\<open>last_accel\<close> (0 on line 136) is replaced by
  the command of each pass (line 213). A pass is given by the two values it hands to the
  limiter, the proposed acceleration and \<^verbatim>\<open>dt\<close>, whatever branch or arithmetic produced
  them; the result is the list of commanded accelerations.\<close>

fun limiter_run :: "real \<Rightarrow> (real \<times> real) list \<Rightarrow> real list" where
  "limiter_run last_acc [] = []"
| "limiter_run last_acc ((desired_accel, dt) # rest) =
     (let c = jerk_limit_float last_acc desired_accel dt in c # limiter_run c rest)"

subsection \<open>\<^verbatim>\<open>main\<close> (lines 121--253)\<close>

text \<open>What one pass of the loop reads from outside: the milliseconds returned by
  \<^verbatim>\<open>clock.tick(FPS)\<close> (a non-negative integer), whether a \<^verbatim>\<open>QUIT\<close> event was queued,
  and the state of the keys W and S.\<close>

record tick_input =
  ms :: nat
  quit :: bool
  key_w :: bool
  key_s :: bool

record main_state =
  lead_car :: Car
  follower_car :: Car
  pid_accel :: PIDController
  pid_brake :: PIDController
  reaction_buffer :: "sample list"
  road_offset :: real
  last_accel :: real
  running :: bool

text \<open>The values one pass of the loop computes, recorded for the statements below: the
  local variables \<^verbatim>\<open>true_distance\<close>, \<^verbatim>\<open>true_rel_speed\<close>, \<^verbatim>\<open>perceived\<close> and
  \<^verbatim>\<open>ttc\<close>, the value of \<^verbatim>\<open>desired_accel\<close> before the jerk limit (proposed) and
  after it (commanded), and the two brake-light flags.\<close>

record tick_output =
  true_distance :: real
  true_rel_speed :: real
  perceived :: sample
  shown_ttc :: ttc
  proposed_accel :: real
  commanded_accel :: real
  follower_braking :: bool
  lead_braking :: bool

definition initial_state :: main_state where
  "initial_state =
    \<lparr>lead_car = Car_init (real_of_int (WIDTH div 2)) (real_of_int (HEIGHT div 2)) (60, 200, 60),
     follower_car = Car_init (real_of_int (WIDTH div 2) - TARGET_DISTANCE)
                             (real_of_int (HEIGHT div 2)) (200, 60, 60),
     pid_accel = PID_init (0.6 + profile * 0.02) 0.0 0.2,
     pid_brake = PID_init (1.2 + profile * 0.02) 0.0 0.6,
     reaction_buffer = [],
     road_offset = 0,
     last_accel = 0,
     running = True\<rparr>"

text \<open>The body of the \<^verbatim>\<open>while\<close> loop, lines 140--226.\<close>

definition main_tick :: "main_state \<Rightarrow> tick_input \<Rightarrow> py_error + (main_state \<times> tick_output)" where
  "main_tick s inp =
    (let dt = real (ms inp) / 1000;
         running1 = (if quit inp then False else running s);
         user_accel = (if key_w inp then MAX_ACCEL else if key_s inp then MAX_BRAKE else 0);
         lead = Car_update (lead_car s) user_accel dt;
         lead_brk = (user_accel < 0);
         true_d = car_x lead - car_x (follower_car s);
         true_rel = car_speed (follower_car s) - car_speed lead;
         buf = reaction_push (reaction_buffer s)
                 \<lparr>s_distance = true_d, s_rel_speed = true_rel\<rparr>
     in case buffer_front buf of
          Inl e \<Rightarrow> Inl e
        | Inr perc \<Rightarrow>
            (case control_law (pid_accel s) (pid_brake s) perc
                    (car_speed (follower_car s)) dt of
               Inl e \<Rightarrow> Inl e
             | Inr ((proposed, pa, pb), tc) \<Rightarrow>
                 (let desired_accel = jerk_limit (last_accel s) proposed dt;
                      follower = Car_update (follower_car s) desired_accel dt;
                      follower_brk = (desired_accel < - 25);
                      world_shift = car_speed lead * dt
                  in Inr (\<lparr>lead_car = lead\<lparr>car_x := real_of_int (WIDTH div 2)\<rparr>,
                           follower_car = follower\<lparr>car_x := car_x follower - world_shift\<rparr>,
                           pid_accel = pa,
                           pid_brake = pb,
                           reaction_buffer = buf,
                           road_offset = road_offset s - world_shift,
                           last_accel = desired_accel,
                           running = running1\<rparr>,
                          \<lparr>true_distance = true_d,
                           true_rel_speed = true_rel,
                           perceived = perc,
                           shown_ttc = tc,
                           proposed_accel = proposed,
                           commanded_accel = desired_accel,
                           follower_braking = follower_brk,
                           lead_braking = lead_brk\<rparr>))))"

text \<open>The \<^verbatim>\<open>while running\<close> loop over the inputs of successive passes. The loop is driven
  from outside (clock, keyboard, window events), so a run is given by the finite list of
  inputs it has consumed so far; the loop is left after the pass that saw \<^verbatim>\<open>QUIT\<close>.\<close>

fun main_loop :: "main_state \<Rightarrow> tick_input list \<Rightarrow> py_error + (main_state \<times> tick_output list)" where
  "main_loop s [] = Inr (s, [])"
| "main_loop s (inp # inps) =
    (if \<not> running s then Inr (s, [])
     else case main_tick s inp of
            Inl e \<Rightarrow> Inl e
          | Inr (s1, out) \<Rightarrow>
              (case main_loop s1 inps of
                 Inl e \<Rightarrow> Inl e
               | Inr (s2, outs) \<Rightarrow> Inr (s2, out # outs)))"

section \<open>Concrete inputs and states\<close>

text \<open>One pass of 16 ms with the key W held.\<close>

definition press_w :: tick_input where
  "press_w = \<lparr>ms = 16, quit = False, key_w = True, key_s = False\<rparr>"

text \<open>The state and the recorded values after the first pass of the program when that pass
  is \<open>press_w\<close>.\<close>

definition state_after_w :: main_state where
  "state_after_w =
    \<lparr>lead_car = \<lparr>car_x = 500, car_y = 200, car_speed = 8 / 5, car_color = (60, 200, 60)\<rparr>,
     follower_car = \<lparr>car_x = 430877058021 / 1220703125, car_y = 200,
                     car_speed = 52448 / 9765625, car_color = (200, 60, 60)\<rparr>,
     pid_accel = \<lparr>kp = 153 / 250, ki = 0, kd = 1 / 5, integral = 32 / 78125,
                  prev_error = 16 / 625\<rparr>,
     pid_brake = \<lparr>kp = 303 / 250, ki = 0, kd = 3 / 5, integral = 0, prev_error = 0\<rparr>,
     reaction_buffer = [\<lparr>s_distance = 91891 / 625, s_rel_speed = - (8 / 5)\<rparr>],
     road_offset = - (16 / 625),
     last_accel = 26224 / 78125,
     running = True\<rparr>"

definition output_after_w :: tick_output where
  "output_after_w =
    \<lparr>true_distance = 91891 / 625, true_rel_speed = - (8 / 5),
     perceived = \<lparr>s_distance = 91891 / 625, s_rel_speed = - (8 / 5)\<rparr>,
     shown_ttc = PosInf,
     proposed_accel = 26224 / 78125, commanded_accel = 26224 / 78125,
     follower_braking = False, lead_braking = False\<rparr>"

text \<open>A controller with a unit integral gain and no other gain.\<close>

definition unit_integral_pid :: PIDController where
  "unit_integral_pid = PID_init 0 1 0"

text \<open>A pass of \<open>n\<close> milliseconds with W held, with S held, and with no key.\<close>

definition hold_w :: "nat \<Rightarrow> tick_input" where
  "hold_w n = \<lparr>ms = n, quit = False, key_w = True, key_s = False\<rparr>"

definition hold_s :: "nat \<Rightarrow> tick_input" where
  "hold_s n = \<lparr>ms = n, quit = False, key_w = False, key_s = True\<rparr>"

definition no_key :: "nat \<Rightarrow> tick_input" where
  "no_key n = \<lparr>ms = n, quit = False, key_w = False, key_s = False\<rparr>"

text \<open>The state of the program after two slow passes (1 s and 2 s) with W held: the
  follower, still perceiving the first sample, has reached a speed of 203.6.\<close>

definition state_after_ww :: main_state where
  "state_after_ww =
    \<lparr>lead_car = \<lparr>car_x = 500, car_y = 200, car_speed = 300, car_color = (60, 200, 60)\<rparr>,
     follower_car = \<lparr>car_x = 707 / 5, car_y = 200, car_speed = 1018 / 5,
                     car_color = (200, 60, 60)\<rparr>,
     pid_accel = \<lparr>kp = 153 / 250, ki = 0, kd = 1 / 5, integral = 300, prev_error = 100\<rparr>,
     pid_brake = \<lparr>kp = 303 / 250, ki = 0, kd = 3 / 5, integral = 0, prev_error = 0\<rparr>,
     reaction_buffer = [\<lparr>s_distance = 247, s_rel_speed = - 100\<rparr>,
                        \<lparr>s_distance = 3829 / 5, s_rel_speed = - (1094 / 5)\<rparr>],
     road_offset = - 700,
     last_accel = 306 / 5,
     running = True\<rparr>"

text \<open>The state and the recorded values after a third pass of 1 s with W held.\<close>

definition state_after_www :: main_state where
  "state_after_www =
    \<lparr>lead_car = \<lparr>car_x = 500, car_y = 200, car_speed = 350, car_color = (60, 200, 60)\<rparr>,
     follower_car = \<lparr>car_x = - (1043 / 5), car_y = 200, car_speed = 0,
                     car_color = (200, 60, 60)\<rparr>,
     pid_accel = \<lparr>kp = 153 / 250, ki = 0, kd = 1 / 5, integral = 0, prev_error = 0\<rparr>,
     pid_brake = \<lparr>kp = 303 / 250, ki = 0, kd = 3 / 5, integral = 0, prev_error = 0\<rparr>,
     reaction_buffer = [\<lparr>s_distance = 247, s_rel_speed = - 100\<rparr>,
                        \<lparr>s_distance = 3829 / 5, s_rel_speed = - (1094 / 5)\<rparr>,
                        \<lparr>s_distance = 3543 / 5, s_rel_speed = - (732 / 5)\<rparr>],
     road_offset = - 1050,
     last_accel = - 300,
     running = True\<rparr>"

definition output_after_www :: tick_output where
  "output_after_www =
    \<lparr>true_distance = 3543 / 5, true_rel_speed = - (732 / 5),
     perceived = \<lparr>s_distance = 247, s_rel_speed = - 100\<rparr>,
     shown_ttc = PosInf,
     proposed_accel = - 300, commanded_accel = - 300,
     follower_braking = True, lead_braking = False\<rparr>"

text \<open>The binary64 values that the first two passes of the program hand to the limiter when
  W is held for a pass of 50 ms and then a pass of 3 ms: the proposed accelerations
  \<^verbatim>\<open>1.153\<close> and \<^verbatim>\<open>16.819666666666667\<close> and the time steps \<^verbatim>\<open>0.05\<close> and
  \<^verbatim>\<open>0.003\<close>, each written as the exact value of the binary64 number; and the binary64
  number \<^verbatim>\<open>4.1530000000000005\<close>.\<close>

definition pass1_proposed :: real where "pass1_proposed = 2596325185179091 / 2 ^ 51"
definition pass1_dt :: real where "pass1_dt = 3602879701896397 / 2 ^ 56"
definition pass2_proposed :: real where "pass2_proposed = 4734315283280997 / 2 ^ 48"
definition pass2_dt :: real where "pass2_dt = 3458764513820541 / 2 ^ 60"
definition pass2_commanded :: real where "pass2_commanded = 2337931156558709 / 2 ^ 49"

definition two_pass_proposals :: "(real \<times> real) list" where
  "two_pass_proposals = [(pass1_proposed, pass1_dt), (pass2_proposed, pass2_dt)]"

text \<open>A run of 32 slow passes: W held for 2 s, S held for 0.5 s, then W held for 30 passes
  of 1 s each. The lead car brakes once and pulls away again; the follower, whose perception
  lags by the reaction buffer, sees the braking only in passes 31 to 33.\<close>

definition approach_run :: "tick_input list" where
  "approach_run = hold_w 2000 # hold_s 500 # replicate 30 (hold_w 1000)"

text \<open>The state after \<open>approach_run\<close>: pass 32 took the TTC branch with distance trim and
  left the brake controller with integral and previous error 50.\<close>

definition state_after_approach :: main_state where
  "state_after_approach =
    \<lparr>lead_car = \<lparr>car_x = 500, car_y = 200, car_speed = 350, car_color = (60, 200, 60)\<rparr>,
     follower_car = \<lparr>car_x = 1128 / 5, car_y = 200, car_speed = 613 / 5,
                     car_color = (200, 60, 60)\<rparr>,
     pid_accel = \<lparr>kp = 153 / 250, ki = 0, kd = 1 / 5, integral = 0, prev_error = 0\<rparr>,
     pid_brake = \<lparr>kp = 303 / 250, ki = 0, kd = 3 / 5, integral = 50, prev_error = 50\<rparr>,
     reaction_buffer =
       \<lparr>s_distance = 197, s_rel_speed = 100\<rparr> # \<lparr>s_distance = 97, s_rel_speed = 100\<rparr>
       # replicate 27 \<lparr>s_distance = 97, s_rel_speed = 0\<rparr>
       @ [\<lparr>s_distance = 397, s_rel_speed = - 300\<rparr>],
     road_offset = - 10625,
     last_accel = 363 / 5,
     running = True\<rparr>"

text \<open>The state and the recorded values after one more pass of 1 s with W held (pass 33).\<close>

definition state_after_close :: main_state where
  "state_after_close =
    \<lparr>lead_car = \<lparr>car_x = 500, car_y = 200, car_speed = 350, car_color = (60, 200, 60)\<rparr>,
     follower_car = \<lparr>car_x = - (622 / 5), car_y = 200, car_speed = 0,
                     car_color = (200, 60, 60)\<rparr>,
     pid_accel = \<lparr>kp = 153 / 250, ki = 0, kd = 1 / 5, integral = 0, prev_error = 0\<rparr>,
     pid_brake = \<lparr>kp = 303 / 250, ki = 0, kd = 3 / 5, integral = 50, prev_error = 50\<rparr>,
     reaction_buffer =
       \<lparr>s_distance = 97, s_rel_speed = 100\<rparr>
       # replicate 27 \<lparr>s_distance = 97, s_rel_speed = 0\<rparr>
       @ [\<lparr>s_distance = 397, s_rel_speed = - 300\<rparr>,
          \<lparr>s_distance = 3122 / 5, s_rel_speed = - (1137 / 5)\<rparr>],
     road_offset = - 10975,
     last_accel = - 300,
     running = True\<rparr>"

definition output_after_close :: tick_output where
  "output_after_close =
    \<lparr>true_distance = 3122 / 5, true_rel_speed = - (1137 / 5),
     perceived = \<lparr>s_distance = 97, s_rel_speed = 100\<rparr>,
     shown_ttc = Finite (97 / 100),
     proposed_accel = - 300, commanded_accel = - 300,
     follower_braking = True, lead_braking = False\<rparr>"

text \<open>The sample a pass appends to \<^verbatim>\<open>reaction_buffer\<close> (line 162), read off the recorded
  values.\<close>

definition sample_of :: "tick_output \<Rightarrow> sample" where
  "sample_of out = \<lparr>s_distance = true_distance out, s_rel_speed = true_rel_speed out\<rparr>"

text \<open>The deque after a sequence of samples has gone through lines 162--166, starting from
  the empty deque of line 133.\<close>

definition push_all :: "sample list \<Rightarrow> sample list" where
  "push_all xs = foldl reaction_push [] xs"

text \<open>Samples that can be told apart: sample number \<open>k\<close> carries the distance \<open>k\<close>.\<close>

definition numbered :: "nat \<Rightarrow> sample" where
  "numbered k = \<lparr>s_distance = real k, s_rel_speed = 0\<rparr>"

definition numbered_pushes :: "sample list" where
  "numbered_pushes = map numbered [1..<32]"

text \<open>The three gains of a controller.\<close>

definition gains :: "PIDController \<Rightarrow> real \<times> real \<times> real" where
  "gains p = (kp p, ki p, kd p)"

text \<open>The part of the state that the control computation carries from pass to pass,
  together with the follower's speed.\<close>

definition carried :: "main_state \<Rightarrow> PIDController \<times> PIDController \<times> real \<times> sample list \<times> real" where
  "carried s = (pid_accel s, pid_brake s, last_accel s, reaction_buffer s,
                car_speed (follower_car s))"

text \<open>The state and the recorded values after a first pass in which the lead car stays at
  rest (no key, or S held while standing); the flag is the lead car's brake light.\<close>

definition state_at_rest :: main_state where
  "state_at_rest = initial_state\<lparr>reaction_buffer := [\<lparr>s_distance = 147, s_rel_speed = 0\<rparr>]\<rparr>"

definition output_at_rest :: "bool \<Rightarrow> tick_output" where
  "output_at_rest b =
    \<lparr>true_distance = 147, true_rel_speed = 0,
     perceived = \<lparr>s_distance = 147, s_rel_speed = 0\<rparr>,
     shown_ttc = PosInf,
     proposed_accel = 0, commanded_accel = 0,
     follower_braking = False, lead_braking = b\<rparr>"

section \<open>Basic facts\<close>

subsection \<open>Configuration values\<close>

lemma profile_lookup: "PROFILES_getitem ''well ok...'' = Inr 0.6"
  by (simp add: PROFILES_getitem_def PROFILES_def)

lemma profile_value: "profile = 0.6"
  by (simp add: profile_def profile_lookup)

lemma max_len_value: "max_len = 30"
  by (simp add: max_len_def py_int_def REACTION_TIME_def FPS_def)

lemmas cfg_simps = profile_value max_len_value TARGET_DISTANCE_def DEADBAND_def MAX_SPEED_def
  MAX_ACCEL_def MAX_BRAKE_def MAX_JERK_def STANDSTILL_DISTANCE_def TIME_HEADWAY_def
  DESIRED_TTC_def MIN_TTC_def TTC_GAIN_def WIDTH_def HEIGHT_def

lemmas tick_simps = main_tick_def control_law_def branch_step_def cruise_branch_def
  ttc_branch_def deadband_step_def compute_ttc_def truediv_def PID_update_def PID_reset_def
  PID_init_def Car_update_def Car_init_def jerk_limit_def reaction_push_def buffer_front_def
  Let_def

subsection \<open>No pass of the loop raises\<close>

lemma PID_update_total:
  "PID_update p e dt =
     Inr (kp p * e + ki p * (integral p + e * dt)
            + kd p * (if dt > 0 then (e - prev_error p) / dt else 0),
          p\<lparr>integral := integral p + e * dt, prev_error := e\<rparr>)"
  by (simp add: PID_update_def truediv_def Let_def)

lemma PID_reset_idem: "PID_reset (PID_reset p) = PID_reset p"
  by (simp add: PID_reset_def)

lemma PID_reset_fields:
  "integral (PID_reset p) = 0" "prev_error (PID_reset p) = 0"
  "kp (PID_reset p) = kp p" "ki (PID_reset p) = ki p" "kd (PID_reset p) = kd p"
  by (simp_all add: PID_reset_def)

lemma compute_ttc_total:
  "compute_ttc d r = Inr (if r > 0 then Finite (d / r) else PosInf)"
  by (simp add: compute_ttc_def truediv_def)

lemma cruise_branch_total:
  "cruise_branch (d, pa, pb) e dt =
     Inr (min (fst (projr (PID_update pa e dt))) MAX_ACCEL,
          snd (projr (PID_update pa e dt)), PID_reset pb)"
  by (simp add: cruise_branch_def PID_update_total)

lemma ttc_branch_total:
  "ttc_branch (d, pa, pb) t e dt =
     Inr (if t < MIN_TTC then (MAX_BRAKE, pa, pb)
          else (max (- TTC_GAIN * (DESIRED_TTC - t) + fst (projr (PID_update pb e dt))) MAX_BRAKE,
                pa, snd (projr (PID_update pb e dt))))"
  by (simp add: ttc_branch_def PID_update_total Let_def)

lemma branch_step_total: "\<exists>r. branch_step st d m tc e dt = Inr r"
  by (cases st; cases tc) (simp_all add: branch_step_def cruise_branch_total ttc_branch_total)

lemma control_law_total: "\<exists>st tc. control_law pa pb p fs dt = Inr (st, tc)"
proof -
  obtain tc where tc: "compute_ttc (s_distance p) (s_rel_speed p) = Inr tc"
    by (simp add: compute_ttc_total)
  let ?m = "STANDSTILL_DISTANCE + fs * TIME_HEADWAY"
  let ?e = "s_distance p - max TARGET_DISTANCE ?m"
  obtain r where "branch_step (deadband_step (0, pa, pb) ?e) (s_distance p) ?m tc ?e dt = Inr r"
    using branch_step_total by blast
  then show ?thesis
    by (cases r) (simp add: control_law_def Let_def tc)
qed

lemma reaction_push_front: "\<exists>p. buffer_front (reaction_push buf smp) = Inr p"
  by (cases buf; cases "tl buf")
    (auto simp: reaction_push_def buffer_front_def max_len_value Let_def split: list.splits)

lemma main_tick_total: "\<exists>s1 out. main_tick s inp = Inr (s1, out)"
proof -
  let ?dt = "real (ms inp) / 1000"
  let ?ua = "if key_w inp then MAX_ACCEL else if key_s inp then MAX_BRAKE else 0"
  let ?lead = "Car_update (lead_car s) ?ua ?dt"
  let ?buf = "reaction_push (reaction_buffer s)
     \<lparr>s_distance = car_x ?lead - car_x (follower_car s),
      s_rel_speed = car_speed (follower_car s) - car_speed ?lead\<rparr>"
  obtain p where p: "buffer_front ?buf = Inr p"
    using reaction_push_front by blast
  obtain st tc where c:
    "control_law (pid_accel s) (pid_brake s) p (car_speed (follower_car s)) ?dt = Inr (st, tc)"
    using control_law_total by blast
  obtain d pa pb where st: "st = (d, pa, pb)" by (cases st) auto
  show ?thesis
    by (simp add: main_tick_def Let_def p c st)
qed

lemma main_loop_total: "\<exists>s1 outs. main_loop s inps = Inr (s1, outs)"
proof (induction inps arbitrary: s)
  case Nil
  show ?case by simp
next
  case (Cons inp inps)
  obtain s1 out where t: "main_tick s inp = Inr (s1, out)"
    using main_tick_total by blast
  obtain s2 outs where l: "main_loop s1 inps = Inr (s2, outs)"
    using Cons.IH by blast
  show ?case by (simp add: t l)
qed

subsection \<open>Taking a run apart\<close>

lemma main_loop_Cons_Inr:
  assumes "main_loop s (inp # inps) = Inr (s2, outs)" and "outs \<noteq> []"
  obtains s1 where "running s" and "main_tick s inp = Inr (s1, hd outs)"
    and "main_loop s1 inps = Inr (s2, tl outs)"
  using assms by (auto split: if_splits sum.splits)

lemma main_loop_Cons_Nil:
  assumes "main_loop s (inp # inps) = Inr (s2, [])"
  shows "s2 = s"
  using assms by (auto split: if_splits sum.splits)

lemma main_loop_length:
  "main_loop s inps = Inr (s2, outs) \<Longrightarrow> length outs \<le> length inps"
proof (induction inps arbitrary: s outs)
  case Nil
  then show ?case by simp
next
  case (Cons inp inps)
  show ?case
  proof (cases "outs = []")
    case True
    then show ?thesis by simp
  next
    case False
    with Cons.prems obtain s1 where "main_loop s1 inps = Inr (s2, tl outs)"
      by (rule main_loop_Cons_Inr)
    then have "length (tl outs) \<le> length inps" by (rule Cons.IH)
    with False show ?thesis by (cases outs) auto
  qed
qed

subsection \<open>What one pass hands on\<close>

lemma main_tick_control:
  assumes "main_tick s inp = Inr (s1, out)"
  shows "control_law (pid_accel s) (pid_brake s) (perceived out) (car_speed (follower_car s))
           (real (ms inp) / 1000)
         = Inr ((proposed_accel out, pid_accel s1, pid_brake s1), shown_ttc out)"
  using assms by (auto simp: main_tick_def Let_def split: sum.splits)

lemma main_tick_buffer:
  assumes "main_tick s inp = Inr (s1, out)"
  shows "reaction_buffer s1 = reaction_push (reaction_buffer s)
           \<lparr>s_distance = true_distance out, s_rel_speed = true_rel_speed out\<rparr>"
    and "buffer_front (reaction_buffer s1) = Inr (perceived out)"
  using assms by (auto simp: main_tick_def Let_def split: sum.splits)

lemma main_tick_jerk:
  assumes "main_tick s inp = Inr (s1, out)"
  shows "commanded_accel out
           = jerk_limit (last_accel s) (proposed_accel out) (real (ms inp) / 1000)"
    and "last_accel s1 = commanded_accel out"
    and "follower_braking out = (commanded_accel out < - 25)"
  using assms by (auto simp: main_tick_def Let_def split: sum.splits)

lemma main_tick_follower_speed:
  assumes "main_tick s inp = Inr (s1, out)"
  shows "car_speed (follower_car s1)
           = car_speed (Car_update (follower_car s) (commanded_accel out) (real (ms inp) / 1000))"
  using assms by (auto simp: main_tick_def Let_def split: sum.splits)

lemma main_tick_lead_speed:
  assumes "main_tick s inp = Inr (s1, out)"
  shows "\<exists>a. car_speed (lead_car s1)
           = car_speed (Car_update (lead_car s) a (real (ms inp) / 1000))"
  using assms by (auto simp: main_tick_def Let_def split: sum.splits)

subsection \<open>The first pass with W held\<close>

lemma first_tick_w: "main_tick initial_state press_w = Inr (state_after_w, output_after_w)"
  by (simp add: initial_state_def press_w_def state_after_w_def output_after_w_def
      tick_simps cfg_simps)

lemma first_loop_w: "main_loop initial_state [press_w] = Inr (state_after_w, [output_after_w])"
  by (simp add: first_tick_w) (simp add: initial_state_def)

subsection \<open>Three slow passes with W held\<close>

lemma two_passes_w:
  "\<exists>outs. main_loop initial_state [hold_w 1000, hold_w 2000] = Inr (state_after_ww, outs)"
  by (simp add: initial_state_def hold_w_def state_after_ww_def tick_simps cfg_simps
      cong: sum.case_cong_weak prod.case_cong_weak)

lemma third_pass_w:
  "main_tick state_after_ww (hold_w 1000) = Inr (state_after_www, output_after_www)"
  by (simp add: hold_w_def state_after_ww_def state_after_www_def output_after_www_def
      tick_simps cfg_simps)

subsection \<open>The approach run\<close>

lemma approach_reaches:
  "map_sum id fst (main_loop initial_state approach_run) = Inr state_after_approach"
  by (simp add: approach_run_def state_after_approach_def eval_nat_numeral initial_state_def
      hold_w_def hold_s_def tick_simps cfg_simps
      cong: sum.case_cong_weak prod.case_cong_weak)

lemma pass_after_approach:
  "main_tick state_after_approach (hold_w 1000) = Inr (state_after_close, output_after_close)"
  by (simp add: state_after_approach_def state_after_close_def output_after_close_def
      eval_nat_numeral hold_w_def tick_simps cfg_simps
      cong: sum.case_cong_weak prod.case_cong_weak)

section \<open>The jerk limiter\<close>

subsection \<open>Rounding to binary64\<close>

lemma round_even_error: "\<bar>real_of_int (round_even y) - y\<bar> \<le> 1 / 2"
proof -
  have "real_of_int \<lfloor>y\<rfloor> \<le> y" "y < real_of_int \<lfloor>y\<rfloor> + 1" by linarith+
  then show ?thesis
    unfolding round_even_def Let_def by (simp add: abs_if) linarith
qed

lemma pow2_floor_log_le:
  assumes "x \<noteq> 0"
  shows "2 powr real_of_int \<lfloor>log 2 \<bar>x\<bar>\<rfloor> \<le> \<bar>x\<bar>"
proof -
  have pos: "0 < \<bar>x\<bar>" using assms by simp
  have "real_of_int \<lfloor>log 2 \<bar>x\<bar>\<rfloor> \<le> log 2 \<bar>x\<bar>" by (rule of_int_floor_le)
  then have "2 powr real_of_int \<lfloor>log 2 \<bar>x\<bar>\<rfloor> \<le> 2 powr log 2 \<bar>x\<bar>"
    by (rule powr_mono) simp
  also have "\<dots> = \<bar>x\<bar>" using pos by simp
  finally show ?thesis .
qed

lemma ulp_bound:
  assumes "x \<noteq> 0"
  shows "2 powr real_of_int (ulp_exponent x) \<le> 2 * (\<bar>x\<bar> * unit_roundoff + half_least_subnormal)"
proof -
  let ?e = "\<lfloor>log 2 \<bar>x\<bar>\<rfloor>"
  have a: "2 powr real_of_int (?e - 52) = 2 powr real_of_int ?e * (2 * unit_roundoff)"
  proof -
    have "2 powr real_of_int (?e - 52) = 2 powr (real_of_int ?e - 52)" by simp
    also have "\<dots> = 2 powr real_of_int ?e / 2 powr 52" by (rule powr_diff)
    also have "(2::real) powr 52 = 2 ^ 52" by (simp add: powr_numeral del: power_numeral)
    finally show ?thesis by (simp add: unit_roundoff_def)
  qed
  have b: "(2::real) powr real_of_int (- 1022 - 52) = 2 * half_least_subnormal"
  proof -
    have "(2::real) powr real_of_int (- 1022 - 52) = 2 powr (- 1074)" by simp
    also have "\<dots> = 1 / 2 powr 1074" by (simp add: powr_minus divide_inverse del: power_numeral)
    also have "(2::real) powr 1074 = 2 ^ 1074" by (simp add: powr_numeral del: power_numeral)
    finally show ?thesis by (simp add: half_least_subnormal_def)
  qed
  have r: "0 \<le> unit_roundoff" "0 \<le> half_least_subnormal"
    by (simp_all add: unit_roundoff_def half_least_subnormal_def del: power_numeral)
  have "ulp_exponent x = ?e - 52 \<or> ulp_exponent x = - 1022 - 52"
    by (auto simp: ulp_exponent_def max_def)
  then show ?thesis
  proof
    assume "ulp_exponent x = ?e - 52"
    then have "2 powr real_of_int (ulp_exponent x) = 2 powr real_of_int ?e * (2 * unit_roundoff)"
      using a by simp
    also have "\<dots> \<le> \<bar>x\<bar> * (2 * unit_roundoff)"
      using pow2_floor_log_le [OF assms] r by (intro mult_right_mono) simp_all
    finally show ?thesis using r by simp
  next
    assume "ulp_exponent x = - 1022 - 52"
    then have "2 powr real_of_int (ulp_exponent x) = 2 * half_least_subnormal" using b by simp
    moreover have "0 \<le> \<bar>x\<bar> * unit_roundoff" using r by simp
    ultimately show ?thesis by simp
  qed
qed

lemma binary64_error:
  "\<bar>binary64 x - x\<bar> \<le> \<bar>x\<bar> * unit_roundoff + half_least_subnormal"
proof (cases "x = 0")
  case True
  then show ?thesis
    by (simp add: binary64_def unit_roundoff_def half_least_subnormal_def del: power_numeral)
next
  case False
  let ?u = "2 powr real_of_int (ulp_exponent x)"
  have u: "0 < ?u" by simp
  have "binary64 x - x = (real_of_int (round_even (x / ?u)) - x / ?u) * ?u"
    using False u by (simp add: binary64_def algebra_simps)
  then have "\<bar>binary64 x - x\<bar> = \<bar>real_of_int (round_even (x / ?u)) - x / ?u\<bar> * ?u"
    using u by (simp add: abs_mult)
  also have "\<dots> \<le> 1 / 2 * ?u"
    using round_even_error [of "x / ?u"] u by (intro mult_right_mono) simp_all
  also have "\<dots> \<le> 1 / 2 * (2 * (\<bar>x\<bar> * unit_roundoff + half_least_subnormal))"
    using ulp_bound [OF False] by simp
  finally show ?thesis by simp
qed

lemma binary64_exact_agrees:
  assumes "binary64 (MAX_JERK * dt) = MAX_JERK * dt"
    and "binary64 (l - MAX_JERK * dt) = l - MAX_JERK * dt"
    and "binary64 (l + MAX_JERK * dt) = l + MAX_JERK * dt"
  shows "jerk_limit_float l d dt = jerk_limit l d dt"
  using assms by (simp add: jerk_limit_float_def jerk_limit_def Let_def)

subsection \<open>The step of the limiter\<close>

lemma roundoff_nonneg: "0 \<le> unit_roundoff" "0 \<le> half_least_subnormal"
  by (simp_all add: unit_roundoff_def half_least_subnormal_def)

lemma jerk_limit_float_step:
  "\<bar>jerk_limit_float l d dt - l\<bar>
     \<le> \<bar>binary64 (MAX_JERK * dt)\<bar>
        + (\<bar>l\<bar> + \<bar>binary64 (MAX_JERK * dt)\<bar>) * unit_roundoff + half_least_subnormal"
proof -
  let ?m = "binary64 (MAX_JERK * dt)"
  let ?lo = "binary64 (l - ?m)" and ?hi = "binary64 (l + ?m)"
  let ?r = "(\<bar>l\<bar> + \<bar>?m\<bar>) * unit_roundoff + half_least_subnormal"
  have "\<bar>?lo - (l - ?m)\<bar> \<le> \<bar>l - ?m\<bar> * unit_roundoff + half_least_subnormal"
    by (rule binary64_error)
  also have "\<dots> \<le> ?r"
    using roundoff_nonneg by (intro add_right_mono mult_right_mono) simp_all
  finally have lo: "\<bar>?lo - (l - ?m)\<bar> \<le> ?r" .
  have "\<bar>?hi - (l + ?m)\<bar> \<le> \<bar>l + ?m\<bar> * unit_roundoff + half_least_subnormal"
    by (rule binary64_error)
  also have "\<dots> \<le> ?r"
    using roundoff_nonneg by (intro add_right_mono mult_right_mono) simp_all
  finally have hi: "\<bar>?hi - (l + ?m)\<bar> \<le> ?r" .
  have c: "jerk_limit_float l d dt = max ?lo (min ?hi d)"
    by (simp add: jerk_limit_float_def Let_def)
  have "?lo \<le> max ?lo (min ?hi d)" "max ?lo (min ?hi d) \<le> max ?lo ?hi"
    by simp_all
  with lo hi show ?thesis
    unfolding c by (simp add: abs_if max_def split: if_splits) linarith+
qed

lemma jerk_limit_float_exact:
  assumes "binary64 (l + binary64 (MAX_JERK * dt)) = l + binary64 (MAX_JERK * dt)"
    and "binary64 (l - binary64 (MAX_JERK * dt)) = l - binary64 (MAX_JERK * dt)"
  shows "\<bar>jerk_limit_float l d dt - l\<bar> \<le> \<bar>binary64 (MAX_JERK * dt)\<bar>"
proof -
  define m where "m = binary64 (MAX_JERK * dt)"
  have "jerk_limit_float l d dt = max (binary64 (l - m)) (min (binary64 (l + m)) d)"
    by (simp add: jerk_limit_float_def Let_def m_def)
  also have "\<dots> = max (l - m) (min (l + m) d)"
    using assms by (simp only: m_def)
  finally have "jerk_limit_float l d dt = max (l - m) (min (l + m) d)" .
  then have "\<bar>jerk_limit_float l d dt - l\<bar> \<le> \<bar>m\<bar>"
    by (simp add: abs_if max_def min_def)
  then show ?thesis by (simp only: m_def)
qed

lemma limiter_run_length: "length (limiter_run l ps) = length ps"
  by (induction ps arbitrary: l) (auto simp: Let_def)

lemma limiter_run_nth:
  "t < length ps \<Longrightarrow>
   limiter_run l ps ! t
     = jerk_limit_float (if t = 0 then l else limiter_run l ps ! (t - 1))
         (fst (ps ! t)) (snd (ps ! t))"
proof (induction ps arbitrary: l t)
  case Nil
  then show ?case by simp
next
  case (Cons p ps)
  obtain d dt where p: "p = (d, dt)" by (cases p)
  show ?case
  proof (cases t)
    case 0
    then show ?thesis by (simp add: p Let_def)
  next
    case (Suc t1)
    with Cons.prems have "t1 < length ps" by simp
    from Cons.IH [OF this, of "jerk_limit_float l d dt"] Suc show ?thesis
      by (cases t1) (simp_all add: p Let_def)
  qed
qed

subsection \<open>Two passes in binary64\<close>

lemma binary64_eval:
  assumes lo: "2 ^ n \<le> \<bar>x\<bar>" and hi: "\<bar>x\<bar> < 2 ^ Suc n" and n: "n \<le> 52"
  shows "binary64 x = real_of_int (round_even (x * 2 ^ (52 - n))) / 2 ^ (52 - n)"
proof -
  have pos: "0 < \<bar>x\<bar>" using lo by (smt (verit) zero_less_power)
  then have x0: "x \<noteq> 0" by simp
  have "real_of_int (int n + 1) = real (Suc n)" by simp
  then have "(2::real) powr real_of_int (int n + 1) = 2 ^ Suc n"
    by (simp only: powr_realpow zero_less_numeral)
  moreover have "(2::real) powr real_of_int (int n) = 2 ^ n"
    by (simp add: powr_realpow)
  ultimately have "2 powr real_of_int (int n) \<le> \<bar>x\<bar> \<and> \<bar>x\<bar> < 2 powr real_of_int (int n + 1)"
    using lo hi by (simp only:)
  then have "\<lfloor>log 2 \<bar>x\<bar>\<rfloor> = int n"
    using pos by (subst floor_log_eq_powr_iff) simp_all
  then have e: "ulp_exponent x = int n - 52"
    by (simp add: ulp_exponent_def)
  have "real_of_int (int n - 52) = - real (52 - n)" using n by simp
  then have "2 powr real_of_int (int n - 52) = 2 powr (- real (52 - n))" by (simp only:)
  also have "\<dots> = 1 / 2 powr real (52 - n)" by (simp add: powr_minus divide_inverse)
  also have "\<dots> = 1 / 2 ^ (52 - n)" by (simp only: powr_realpow zero_less_numeral)
  finally have u: "2 powr real_of_int (ulp_exponent x) = 1 / 2 ^ (52 - n)"
    by (simp only: e)
  show ?thesis using x0 by (simp add: binary64_def u)
qed

lemma round_even_int: "round_even (real_of_int k) = k"
  by (simp add: round_even_def)

lemma max_delta_pass1: "binary64 (MAX_JERK * pass1_dt) = 50"
proof -
  have "binary64 (MAX_JERK * pass1_dt)
          = real_of_int (round_even (MAX_JERK * pass1_dt * 2 ^ (52 - 5))) / 2 ^ (52 - 5)"
    by (rule binary64_eval) (simp_all add: MAX_JERK_def pass1_dt_def)
  also have "\<dots> = 50"
    by (simp add: MAX_JERK_def pass1_dt_def round_even_def)
  finally show ?thesis .
qed

lemma binary64_fifty: "binary64 50 = 50" "binary64 (- 50) = - 50"
proof -
  have "binary64 50 = real_of_int (round_even (50 * 2 ^ (52 - 5))) / 2 ^ (52 - 5)"
    by (rule binary64_eval) simp_all
  then show "binary64 50 = 50" by (simp add: round_even_def)
  have "binary64 (- 50) = real_of_int (round_even (- 50 * 2 ^ (52 - 5))) / 2 ^ (52 - 5)"
    by (rule binary64_eval) simp_all
  then show "binary64 (- 50) = - 50" by (simp add: round_even_def)
qed

lemma max_delta_pass2: "binary64 (MAX_JERK * pass2_dt) = 3"
proof -
  have "binary64 (MAX_JERK * pass2_dt)
          = real_of_int (round_even (MAX_JERK * pass2_dt * 2 ^ (52 - 1))) / 2 ^ (52 - 1)"
    by (rule binary64_eval) (simp_all add: MAX_JERK_def pass2_dt_def)
  also have "\<dots> = 3"
    by (simp add: MAX_JERK_def pass2_dt_def round_even_def)
  finally show ?thesis .
qed

lemma upper_end_pass2: "binary64 (pass1_proposed + 3) = pass2_commanded"
proof -
  have "binary64 (pass1_proposed + 3)
          = real_of_int (round_even ((pass1_proposed + 3) * 2 ^ (52 - 2))) / 2 ^ (52 - 2)"
    by (rule binary64_eval) (simp_all add: pass1_proposed_def)
  also have "\<dots> = pass2_commanded"
    by (simp add: pass1_proposed_def pass2_commanded_def round_even_def)
  finally show ?thesis .
qed

lemma lower_end_pass2: "binary64 (pass1_proposed - 3) = - (4159074255876653 / 2 ^ 51)"
proof -
  have "binary64 (pass1_proposed - 3)
          = real_of_int (round_even ((pass1_proposed - 3) * 2 ^ (52 - 0))) / 2 ^ (52 - 0)"
    by (rule binary64_eval) (simp_all add: pass1_proposed_def)
  also have "\<dots> = - (4159074255876653 / 2 ^ 51)"
    by (simp add: pass1_proposed_def round_even_def)
  finally show ?thesis .
qed

lemma two_pass_commands:
  "limiter_run 0 two_pass_proposals = [pass1_proposed, pass2_commanded]"
proof -
  have a: "jerk_limit_float 0 pass1_proposed pass1_dt = pass1_proposed"
    by (simp add: jerk_limit_float_def Let_def max_delta_pass1 binary64_fifty)
      (simp add: pass1_proposed_def)
  have b: "jerk_limit_float pass1_proposed pass2_proposed pass2_dt = pass2_commanded"
    by (simp add: jerk_limit_float_def Let_def max_delta_pass2 upper_end_pass2 lower_end_pass2)
      (simp add: pass2_proposed_def pass2_commanded_def)
  show ?thesis
    by (simp add: two_pass_proposals_def Let_def a b)
qed

text \<open>
  Claim C1, as stated: in every pass the commanded acceleration differs from the one of the
  pass before (0 before the first pass) by at most \<^verbatim>\<open>MAX_JERK * dt\<close>. In the program's
  arithmetic this fails by one rounding. With W held for a pass of 50 ms and a pass of 3 ms
  the first pass commands \<^verbatim>\<open>1.153\<close>; in the second pass \<^verbatim>\<open>MAX_JERK * dt\<close> is
  \<^verbatim>\<open>3.0\<close>, the proposal \<^verbatim>\<open>16.819666666666667\<close> is clamped to
  \<^verbatim>\<open>last_accel + max_delta\<close>, and that sum lies halfway between two binary64 numbers and
  rounds up to \<^verbatim>\<open>4.1530000000000005\<close>: the step is \<open>3 + 1 / 2 ^ 51\<close>, above both
  \<^verbatim>\<open>3.0\<close> and the exact product of 1000 and the binary64 number \<^verbatim>\<open>0.003\<close>.
\<close>

theorem jerk_limit_rounding_counterexample:
  "limiter_run 0 two_pass_proposals = [pass1_proposed, pass2_commanded]
   \<and> binary64 (MAX_JERK * pass2_dt) = 3
   \<and> pass2_commanded - pass1_proposed = 3 + 1 / 2 ^ 51
   \<and> MAX_JERK * pass2_dt = 3 + 9 / 2 ^ 57
   \<and> \<not> \<bar>pass2_commanded - pass1_proposed\<bar> \<le> MAX_JERK * pass2_dt"
  by (simp add: two_pass_commands max_delta_pass2)
    (simp add: pass2_commanded_def pass1_proposed_def pass2_dt_def MAX_JERK_def)

text \<open>
  Claim C1, amended: for every sequence of passes, whatever acceleration the arbitration
  proposes and whatever \<^verbatim>\<open>dt\<close> is, the command of pass \<open>t\<close> is the proposal clamped
  between the binary64 values of \<^verbatim>\<open>last_accel - max_delta\<close> and
  \<^verbatim>\<open>last_accel + max_delta\<close>, where \<^verbatim>\<open>last_accel\<close> is the command of the pass before
  (0 before the first pass) and \<^verbatim>\<open>max_delta\<close> is the binary64 value of
  \<^verbatim>\<open>MAX_JERK * dt\<close>. Hence the step from one command to the next is at most
  \<open>|max_delta| + (|last_accel| + |max_delta|) / 2 ^ 53 + 1 / 2 ^ 1075\<close>, with
  \<^verbatim>\<open>max_delta\<close> within \<open>|MAX_JERK * dt| / 2 ^ 53 + 1 / 2 ^ 1075\<close> of the exact product; and
  it is at most \<open>|max_delta|\<close>, as the claim has it, in every pass in which the sum and the
  difference are binary64 numbers themselves and so are not rounded.
\<close>

theorem jerk_limiter_rounded_invariant:
  assumes "t < length ps"
  shows "let cs = limiter_run 0 ps;
             prev = (if t = 0 then 0 else cs ! (t - 1));
             max_delta = binary64 (MAX_JERK * snd (ps ! t))
         in length cs = length ps
            \<and> cs ! t = max (binary64 (prev - max_delta))
                          (min (binary64 (prev + max_delta)) (fst (ps ! t)))
            \<and> \<bar>cs ! t - prev\<bar>
                 \<le> \<bar>max_delta\<bar> + (\<bar>prev\<bar> + \<bar>max_delta\<bar>) * unit_roundoff
                    + half_least_subnormal
            \<and> \<bar>max_delta - MAX_JERK * snd (ps ! t)\<bar>
                 \<le> \<bar>MAX_JERK * snd (ps ! t)\<bar> * unit_roundoff + half_least_subnormal
            \<and> (binary64 (prev + max_delta) = prev + max_delta
                 \<and> binary64 (prev - max_delta) = prev - max_delta
                 \<longrightarrow> \<bar>cs ! t - prev\<bar> \<le> \<bar>max_delta\<bar>)"
proof -
  let ?cs = "limiter_run 0 ps"
  let ?prev = "if t = 0 then 0 else ?cs ! (t - 1)"
  let ?m = "binary64 (MAX_JERK * snd (ps ! t))"
  have c: "?cs ! t = jerk_limit_float ?prev (fst (ps ! t)) (snd (ps ! t))"
    using limiter_run_nth [OF assms, of 0] by simp
  have f1: "length ?cs = length ps" by (rule limiter_run_length)
  have f2: "?cs ! t = max (binary64 (?prev - ?m)) (min (binary64 (?prev + ?m)) (fst (ps ! t)))"
    unfolding c by (simp add: jerk_limit_float_def Let_def)
  have f3: "\<bar>?cs ! t - ?prev\<bar>
      \<le> \<bar>?m\<bar> + (\<bar>?prev\<bar> + \<bar>?m\<bar>) * unit_roundoff + half_least_subnormal"
    unfolding c by (rule jerk_limit_float_step)
  have f4: "\<bar>?m - MAX_JERK * snd (ps ! t)\<bar>
      \<le> \<bar>MAX_JERK * snd (ps ! t)\<bar> * unit_roundoff + half_least_subnormal"
    by (rule binary64_error)
  have f5: "\<bar>?cs ! t - ?prev\<bar> \<le> \<bar>?m\<bar>"
    if "binary64 (?prev + ?m) = ?prev + ?m \<and> binary64 (?prev - ?m) = ?prev - ?m"
    unfolding c using that by (intro jerk_limit_float_exact) simp_all
  show ?thesis
    unfolding Let_def using f1 f2 f3 f4 f5 by blast
qed

theorem jerk_limiter_rounded_invariant_witness:
  "(1::nat) < length two_pass_proposals
   \<and> limiter_run 0 two_pass_proposals = [pass1_proposed, pass2_commanded]
   \<and> binary64 (MAX_JERK * pass2_dt) = 3
   \<and> \<bar>pass2_commanded - pass1_proposed\<bar>
        \<le> 3 + (\<bar>pass1_proposed\<bar> + 3) * unit_roundoff + half_least_subnormal
   \<and> binary64 (MAX_JERK * pass1_dt) = 50
   \<and> binary64 (0 + 50) = 0 + 50 \<and> binary64 (0 - 50) = 0 - 50
   \<and> \<bar>pass1_proposed - 0\<bar> \<le> 50"
proof -
  have l: "(1::nat) < length two_pass_proposals" "(0::nat) < length two_pass_proposals"
    by (simp_all add: two_pass_proposals_def)
  have p: "two_pass_proposals ! Suc 0 = (pass2_proposed, pass2_dt)"
    "two_pass_proposals ! 0 = (pass1_proposed, pass1_dt)"
    by (simp_all add: two_pass_proposals_def)
  have e: "binary64 (0 + 50) = 0 + 50" "binary64 (0 - 50) = 0 - 50"
    by (simp_all add: binary64_fifty)
  have "\<bar>pass2_commanded - pass1_proposed\<bar>
        \<le> 3 + (\<bar>pass1_proposed\<bar> + 3) * unit_roundoff + half_least_subnormal"
    using jerk_limiter_rounded_invariant [OF l(1)]
    by (simp add: Let_def two_pass_commands p max_delta_pass2)
  moreover have "\<bar>pass1_proposed - 0\<bar> \<le> 50"
    using jerk_limiter_rounded_invariant [OF l(2)] e
    by (simp add: Let_def two_pass_commands p max_delta_pass1)
  ultimately show ?thesis
    using l(1) two_pass_commands max_delta_pass2 max_delta_pass1 e by blast
qed

section \<open>The controller after a reset\<close>

text \<open>
  Claim C4, as stated: \<^verbatim>\<open>reset()\<close> followed by \<^verbatim>\<open>update(error, dt)\<close> with
  \<^verbatim>\<open>dt > 0\<close> returns \<^verbatim>\<open>kp*error + kd*(error/dt)\<close> for every gain triple. This fails
  when \<^verbatim>\<open>ki\<close> is not zero: line 67 adds \<^verbatim>\<open>error * dt\<close> to the integral before the
  output is formed on lines 70--74. With gains \<open>(0, 1, 0)\<close>, error 1 and \<^verbatim>\<open>dt = 1\<close> the
  call returns 1, and the claimed value is 0.
\<close>

theorem post_reset_update_counterexample:
  "PID_update (PID_reset unit_integral_pid) 1 1
     = Inr (1, \<lparr>kp = 0, ki = 1, kd = 0, integral = 1, prev_error = 1\<rparr>)
   \<and> kp unit_integral_pid * 1 + kd unit_integral_pid * (1 / 1) = 0"
  by (simp add: unit_integral_pid_def PID_update_total PID_reset_def PID_init_def)

text \<open>
  Claim C4, amended: for every controller, error and \<^verbatim>\<open>dt > 0\<close>, \<^verbatim>\<open>reset()\<close> followed
  by \<^verbatim>\<open>update(error, dt)\<close> returns \<^verbatim>\<open>kp*error + ki*(error*dt) + kd*(error/dt)\<close> and
  leaves \<^verbatim>\<open>integral = error*dt\<close>, \<^verbatim>\<open>prev_error = error\<close>; the result is
  \<^verbatim>\<open>kp*error + kd*(error/dt)\<close> when \<^verbatim>\<open>ki = 0\<close>, as in both controllers the program
  constructs.
\<close>

theorem post_reset_update:
  assumes "0 < dt"
  shows "PID_update (PID_reset p) e dt =
           Inr (kp p * e + ki p * (e * dt) + kd p * (e / dt),
                p\<lparr>integral := e * dt, prev_error := e\<rparr>)
         \<and> (ki p = 0 \<longrightarrow>
              PID_update (PID_reset p) e dt =
                Inr (kp p * e + kd p * (e / dt), p\<lparr>integral := e * dt, prev_error := e\<rparr>))"
  using assms by (simp add: PID_update_total PID_reset_def)

theorem post_reset_update_witness:
  "(0::real) < 1 / 2 \<and> ki (pid_accel initial_state) = 0
   \<and> PID_update (PID_reset (pid_accel initial_state)) 3 (1 / 2)
       = Inr (3036 / 1000, \<lparr>kp = 612 / 1000, ki = 0, kd = 2 / 10,
                              integral = 3 / 2, prev_error = 3\<rparr>)"
  using post_reset_update [of "1 / 2" "pid_accel initial_state" 3]
  by (simp add: initial_state_def PID_init_def profile_value)

section \<open>Time to contact\<close>

text \<open>
  Claim C6. When the perceived relative speed is at most 0 the time to contact is
  \<^verbatim>\<open>float("inf")\<close>, which is below no finite bound, so the TTC branch is not entered; the
  quotient \<^verbatim>\<open>distance / rel_speed\<close> is formed only when the relative speed is positive;
  \<^verbatim>\<open>ZeroDivisionError\<close> (or any other exception) is never raised; and every pass of the
  loop shows exactly this value for its perceived sample.
\<close>

theorem ttc_division_guard:
  "(r \<le> 0 \<longrightarrow> compute_ttc d r = Inr PosInf)
   \<and> (0 < r \<longrightarrow> compute_ttc d r = Inr (Finite (d / r)))
   \<and> (\<forall>e. compute_ttc d r \<noteq> Inl e)
   \<and> \<not> ttc_less PosInf DESIRED_TTC
   \<and> (main_tick s inp = Inr (s1, out) \<longrightarrow>
        Inr (shown_ttc out)
          = compute_ttc (s_distance (perceived out)) (s_rel_speed (perceived out)))"
proof -
  have "Inr (shown_ttc out)
          = compute_ttc (s_distance (perceived out)) (s_rel_speed (perceived out))"
    if "main_tick s inp = Inr (s1, out)"
    using main_tick_control [OF that]
    by (auto simp: control_law_def Let_def compute_ttc_total split: sum.splits)
  then show ?thesis by (simp add: compute_ttc_total)
qed

theorem ttc_division_guard_witness:
  "(- (8 / 5) :: real) \<le> 0 \<and> compute_ttc (91891 / 625) (- (8 / 5)) = Inr PosInf
   \<and> (0::real) < 50 \<and> compute_ttc 100 50 = Inr (Finite 2)
   \<and> main_tick initial_state press_w = Inr (state_after_w, output_after_w)
   \<and> shown_ttc output_after_w = PosInf"
proof -
  have p: "perceived output_after_w = \<lparr>s_distance = 91891 / 625, s_rel_speed = - (8 / 5)\<rparr>"
    by (simp add: output_after_w_def)
  from ttc_division_guard [of "- (8 / 5)" "91891 / 625" initial_state press_w
      state_after_w output_after_w]
    ttc_division_guard [of 50 100 initial_state press_w state_after_w output_after_w]
  show ?thesis by (simp add: first_tick_w p)
qed

section \<open>Speed saturation\<close>

lemma Car_update_speed:
  "car_speed (Car_update c a dt) = max 0 (min (car_speed c + a * dt) MAX_SPEED)"
  "car_x (Car_update c a dt) = car_x c + car_speed (Car_update c a dt) * dt"
  by (simp_all add: Car_update_def Let_def)

lemma Car_update_range:
  "0 \<le> car_speed (Car_update c a dt) \<and> car_speed (Car_update c a dt) \<le> MAX_SPEED"
  by (simp add: Car_update_def Let_def MAX_SPEED_def)

lemma main_tick_speed_range:
  assumes "main_tick s inp = Inr (s1, out)"
  shows "0 \<le> car_speed (follower_car s1) \<and> car_speed (follower_car s1) \<le> MAX_SPEED"
  using main_tick_follower_speed [OF assms] by (simp add: Car_update_range)

lemma main_loop_speed_range:
  "main_loop s inps = Inr (s2, outs) \<Longrightarrow>
   0 \<le> car_speed (follower_car s) \<and> car_speed (follower_car s) \<le> MAX_SPEED \<Longrightarrow>
   0 \<le> car_speed (follower_car s2) \<and> car_speed (follower_car s2) \<le> MAX_SPEED"
proof (induction inps arbitrary: s outs)
  case Nil
  then show ?case by simp
next
  case (Cons inp inps)
  show ?case
  proof (cases "outs = []")
    case True
    with Cons.prems(1) have "s2 = s" by (simp only: main_loop_Cons_Nil)
    with Cons.prems(2) show ?thesis by simp
  next
    case False
    with Cons.prems(1) obtain s1 where t: "main_tick s inp = Inr (s1, hd outs)"
      and r: "main_loop s1 inps = Inr (s2, tl outs)"
      by (rule main_loop_Cons_Inr)
    from Cons.IH [OF r main_tick_speed_range [OF t]] show ?thesis .
  qed
qed

text \<open>
  Claim C9. \<^verbatim>\<open>Car.update\<close> sets the speed to \<^verbatim>\<open>speed + accel*dt\<close> clamped into
  \<^verbatim>\<open>[0, MAX_SPEED]\<close> and then advances the position by the new speed times \<^verbatim>\<open>dt\<close>;
  so after every update, for every acceleration and every \<^verbatim>\<open>dt\<close>, the speed lies in
  \<^verbatim>\<open>[0, MAX_SPEED]\<close>, and so does the follower's speed at the end of every run of the
  program.
\<close>

theorem speed_saturation:
  "0 \<le> car_speed (Car_update c a dt)
   \<and> car_speed (Car_update c a dt) \<le> MAX_SPEED
   \<and> car_speed (Car_update c a dt) = max 0 (min (car_speed c + a * dt) MAX_SPEED)
   \<and> car_x (Car_update c a dt) = car_x c + car_speed (Car_update c a dt) * dt
   \<and> (main_loop initial_state inps = Inr (s, outs) \<longrightarrow>
        0 \<le> car_speed (follower_car s) \<and> car_speed (follower_car s) \<le> MAX_SPEED)"
proof -
  have "0 \<le> car_speed (follower_car initial_state)
        \<and> car_speed (follower_car initial_state) \<le> MAX_SPEED"
    by (simp add: initial_state_def Car_init_def MAX_SPEED_def)
  then have "0 \<le> car_speed (follower_car s) \<and> car_speed (follower_car s) \<le> MAX_SPEED"
    if "main_loop initial_state inps = Inr (s, outs)"
    using main_loop_speed_range [OF that] by simp
  then show ?thesis
    using Car_update_range [of c a dt] by (simp add: Car_update_speed)
qed

theorem speed_saturation_witness:
  "main_loop initial_state [press_w] = Inr (state_after_w, [output_after_w])
   \<and> car_speed (follower_car state_after_w) = 52448 / 9765625
   \<and> (0::real) \<le> 52448 / 9765625 \<and> 52448 / 9765625 \<le> MAX_SPEED
   \<and> car_speed (Car_update (follower_car initial_state) 400 1) = MAX_SPEED"
proof -
  have v: "car_speed (follower_car state_after_w) = 52448 / 9765625"
    by (simp add: state_after_w_def)
  have c: "car_speed (follower_car initial_state) = 0"
    by (simp add: initial_state_def Car_init_def)
  from speed_saturation [of "follower_car initial_state" 400 1 "[press_w]" state_after_w
      "[output_after_w]"]
  show ?thesis
    by (simp add: first_loop_w v c MAX_SPEED_def del: main_loop.simps)
qed

section \<open>The arbitration, branch by branch\<close>

lemma control_law_too_close:
  assumes "s_distance p < STANDSTILL_DISTANCE + fs * TIME_HEADWAY"
  shows "control_law pa pb p fs dt =
    Inr ((MAX_BRAKE, PID_reset pa,
          if \<bar>s_distance p - max TARGET_DISTANCE (STANDSTILL_DISTANCE + fs * TIME_HEADWAY)\<bar>
               < DEADBAND
          then PID_reset pb else pb),
         if s_rel_speed p > 0 then Finite (s_distance p / s_rel_speed p) else PosInf)"
  using assms
  by (simp add: control_law_def Let_def compute_ttc_total branch_step_def deadband_step_def
      PID_reset_idem)

text \<open>
  Claim C2. In every pass of the loop in which the perceived distance is below
  \<^verbatim>\<open>min_follow_distance = STANDSTILL_DISTANCE + follower_car.speed * TIME_HEADWAY\<close>, the
  acceleration proposed to the jerk limiter is exactly \<^verbatim>\<open>MAX_BRAKE\<close> and the cruise
  controller \<^verbatim>\<open>pid_accel\<close> is left reset (integral and previous error 0), whether or not
  the deadband test of line 183 held in that pass.
\<close>

theorem too_close_hard_floor:
  assumes "main_tick s inp = Inr (s1, out)"
    and "s_distance (perceived out)
           < STANDSTILL_DISTANCE + car_speed (follower_car s) * TIME_HEADWAY"
  shows "proposed_accel out = MAX_BRAKE \<and> pid_accel s1 = PID_reset (pid_accel s)
         \<and> integral (pid_accel s1) = 0 \<and> prev_error (pid_accel s1) = 0"
proof -
  have "Inr ((proposed_accel out, pid_accel s1, pid_brake s1), shown_ttc out)
        = control_law (pid_accel s) (pid_brake s) (perceived out) (car_speed (follower_car s))
           (real (ms inp) / 1000)"
    using main_tick_control [OF assms(1)] by simp
  then have "proposed_accel out = MAX_BRAKE" and "pid_accel s1 = PID_reset (pid_accel s)"
    by (simp_all add: control_law_too_close [OF assms(2)])
  then show ?thesis by (simp add: PID_reset_fields)
qed

theorem too_close_hard_floor_witness:
  "main_tick state_after_ww (hold_w 1000) = Inr (state_after_www, output_after_www)
   \<and> s_distance (perceived output_after_www) = 247
   \<and> STANDSTILL_DISTANCE + car_speed (follower_car state_after_ww) * TIME_HEADWAY = 26932 / 100
   \<and> integral (pid_accel state_after_ww) = 300
   \<and> proposed_accel output_after_www = MAX_BRAKE
   \<and> integral (pid_accel state_after_www) = 0 \<and> prev_error (pid_accel state_after_www) = 0"
proof -
  have d: "s_distance (perceived output_after_www) = 247"
    by (simp add: output_after_www_def)
  have m: "STANDSTILL_DISTANCE + car_speed (follower_car state_after_ww) * TIME_HEADWAY
             = 26932 / 100"
    by (simp add: state_after_ww_def cfg_simps)
  have i: "integral (pid_accel state_after_ww) = 300"
    by (simp add: state_after_ww_def)
  have "s_distance (perceived output_after_www)
          < STANDSTILL_DISTANCE + car_speed (follower_car state_after_ww) * TIME_HEADWAY"
    by (simp add: d m)
  from too_close_hard_floor [OF third_pass_w this] show ?thesis
    by (simp add: third_pass_w d m i PID_reset_fields)
qed

section \<open>The deadband\<close>

lemma control_law_deadband_cruise:
  assumes "\<bar>s_distance p - max TARGET_DISTANCE (STANDSTILL_DISTANCE + fs * TIME_HEADWAY)\<bar>
             < DEADBAND"
    and "\<not> s_distance p < STANDSTILL_DISTANCE + fs * TIME_HEADWAY"
    and "s_rel_speed p \<le> 0 \<or> \<not> s_distance p / s_rel_speed p < DESIRED_TTC"
  shows "fst (fst (projr (control_law pa pb p fs dt)))
     = min (fst (projr (PID_update (PID_reset pa)
              (s_distance p - max TARGET_DISTANCE (STANDSTILL_DISTANCE + fs * TIME_HEADWAY)) dt)))
           MAX_ACCEL"
  using assms
  by (auto simp: control_law_def Let_def compute_ttc_total branch_step_def deadband_step_def
      cruise_branch_total)

text \<open>
  Claim C3 says that a pass with \<^verbatim>\<open>abs(distance_error) < DEADBAND\<close>, the perceived
  distance not below \<^verbatim>\<open>min_follow_distance\<close> and \<^verbatim>\<open>ttc\<close> not below
  \<^verbatim>\<open>DESIRED_TTC\<close> proposes the acceleration 0. The program does not do that: lines
  183--186 set \<^verbatim>\<open>desired_accel = 0\<close>, but the chain of lines 188--209 starts with
  \<^verbatim>\<open>if\<close>, not \<^verbatim>\<open>elif\<close>, and its final \<^verbatim>\<open>else\<close> overwrites the value with the
  output of the freshly reset \<^verbatim>\<open>pid_accel\<close>. In the very first pass of the program, 16 ms
  with W held, the perceived distance is 147.0256, the distance error 0.0256 lies inside
  the deadband of 6, \<^verbatim>\<open>min_follow_distance\<close> is 25, \<^verbatim>\<open>ttc\<close> is infinite, and the
  proposed acceleration is 0.3356672.
\<close>

theorem deadband_overwritten_by_cruise:
  "main_tick initial_state press_w = Inr (state_after_w, output_after_w)
   \<and> \<bar>s_distance (perceived output_after_w)
        - max TARGET_DISTANCE
            (STANDSTILL_DISTANCE + car_speed (follower_car initial_state) * TIME_HEADWAY)\<bar>
       < DEADBAND
   \<and> \<not> s_distance (perceived output_after_w)
          < STANDSTILL_DISTANCE + car_speed (follower_car initial_state) * TIME_HEADWAY
   \<and> \<not> ttc_less (shown_ttc output_after_w) DESIRED_TTC
   \<and> proposed_accel output_after_w = 3356672 / 10000000
   \<and> commanded_accel output_after_w = 3356672 / 10000000"
proof -
  have "car_speed (follower_car initial_state) = 0"
    by (simp add: initial_state_def Car_init_def)
  then show ?thesis
    by (simp add: first_tick_w output_after_w_def cfg_simps)
qed

section \<open>Which controller is reset when\<close>

lemma MIN_TTC_less_DESIRED: "MIN_TTC < DESIRED_TTC"
  by (simp add: MIN_TTC_def DESIRED_TTC_def)

lemma control_law_controllers:
  assumes "control_law pa pb p fs dt = Inr ((d, pa1, pb1), tc)"
  shows "pa1 = (if s_distance p < STANDSTILL_DISTANCE + fs * TIME_HEADWAY
                   \<or> ttc_less tc DESIRED_TTC
                then PID_reset pa
                else snd (projr (PID_update
                  (if \<bar>s_distance p - max TARGET_DISTANCE (STANDSTILL_DISTANCE + fs * TIME_HEADWAY)\<bar>
                        < DEADBAND
                   then PID_reset pa else pa)
                  (s_distance p - max TARGET_DISTANCE (STANDSTILL_DISTANCE + fs * TIME_HEADWAY))
                  dt)))"
    and "pb1 = (if s_distance p < STANDSTILL_DISTANCE + fs * TIME_HEADWAY
                   \<or> ttc_less tc MIN_TTC
                then (if \<bar>s_distance p
                            - max TARGET_DISTANCE (STANDSTILL_DISTANCE + fs * TIME_HEADWAY)\<bar>
                         < DEADBAND
                      then PID_reset pb else pb)
                else if ttc_less tc DESIRED_TTC
                then snd (projr (PID_update
                  (if \<bar>s_distance p - max TARGET_DISTANCE (STANDSTILL_DISTANCE + fs * TIME_HEADWAY)\<bar>
                        < DEADBAND
                   then PID_reset pb else pb)
                  (s_distance p - max TARGET_DISTANCE (STANDSTILL_DISTANCE + fs * TIME_HEADWAY))
                  dt))
                else PID_reset pb)"
  using assms MIN_TTC_less_DESIRED
  by (auto simp: control_law_def Let_def compute_ttc_total branch_step_def deadband_step_def
      cruise_branch_total ttc_branch_total PID_reset_idem split: if_splits)

text \<open>
  Claim C7, as stated: every controller whose \<^verbatim>\<open>update\<close> is not called in a pass is reset
  in that pass, so that the brake controller's integral and previous error are 0 at the end
  of every pass that takes the too-close branch. This fails for \<^verbatim>\<open>pid_brake\<close>: lines
  188--190 reset only \<^verbatim>\<open>pid_accel\<close>. In the run \<open>approach_run\<close> followed by one more
  pass of 1 s with W held, pass 32 takes the TTC branch with distance trim and leaves the
  brake controller with integral and previous error 50; pass 33 perceives the distance 97,
  below \<^verbatim>\<open>min_follow_distance = 172.12\<close>, takes the too-close branch outside the deadband,
  and the brake controller still holds 50 and 50 at its end.
\<close>

theorem brake_pid_kept_counterexample:
  "map_sum id fst (main_loop initial_state approach_run) = Inr state_after_approach
   \<and> main_tick state_after_approach (hold_w 1000) = Inr (state_after_close, output_after_close)
   \<and> s_distance (perceived output_after_close) = 97
   \<and> STANDSTILL_DISTANCE + car_speed (follower_car state_after_approach) * TIME_HEADWAY
       = 17212 / 100
   \<and> proposed_accel output_after_close = MAX_BRAKE
   \<and> integral (pid_brake state_after_close) = 50
   \<and> prev_error (pid_brake state_after_close) = 50"
  by (simp add: approach_reaches pass_after_approach)
    (simp add: state_after_approach_def state_after_close_def output_after_close_def cfg_simps)

text \<open>
  Claim C7, amended: in every pass, \<^verbatim>\<open>pid_accel\<close> is reset unless the cruise branch
  updates it (it is reset in the too-close branch and in both TTC sub-branches);
  \<^verbatim>\<open>pid_brake\<close> is reset in the cruise branch and, before the branch is chosen, whenever
  the distance error lies inside the deadband; it is updated in the TTC sub-branch with
  distance trim; and in the too-close branch and the \<^verbatim>\<open>ttc < MIN_TTC\<close> sub-branch it is
  neither updated nor reset, so outside the deadband it keeps its integral and previous
  error.
\<close>

theorem controller_resets:
  assumes "main_tick s inp = Inr (s1, out)"
  shows "pid_accel s1 =
          (if s_distance (perceived out)
                < STANDSTILL_DISTANCE + car_speed (follower_car s) * TIME_HEADWAY
              \<or> ttc_less (shown_ttc out) DESIRED_TTC
           then PID_reset (pid_accel s)
           else snd (projr (PID_update
             (if \<bar>s_distance (perceived out)
                   - max TARGET_DISTANCE
                       (STANDSTILL_DISTANCE + car_speed (follower_car s) * TIME_HEADWAY)\<bar>
                   < DEADBAND
              then PID_reset (pid_accel s) else pid_accel s)
             (s_distance (perceived out)
                - max TARGET_DISTANCE
                    (STANDSTILL_DISTANCE + car_speed (follower_car s) * TIME_HEADWAY))
             (real (ms inp) / 1000))))
       \<and> pid_brake s1 =
          (if s_distance (perceived out)
                < STANDSTILL_DISTANCE + car_speed (follower_car s) * TIME_HEADWAY
              \<or> ttc_less (shown_ttc out) MIN_TTC
           then (if \<bar>s_distance (perceived out)
                      - max TARGET_DISTANCE
                          (STANDSTILL_DISTANCE + car_speed (follower_car s) * TIME_HEADWAY)\<bar>
                      < DEADBAND
                 then PID_reset (pid_brake s) else pid_brake s)
           else if ttc_less (shown_ttc out) DESIRED_TTC
           then snd (projr (PID_update
             (if \<bar>s_distance (perceived out)
                   - max TARGET_DISTANCE
                       (STANDSTILL_DISTANCE + car_speed (follower_car s) * TIME_HEADWAY)\<bar>
                   < DEADBAND
              then PID_reset (pid_brake s) else pid_brake s)
             (s_distance (perceived out)
                - max TARGET_DISTANCE
                    (STANDSTILL_DISTANCE + car_speed (follower_car s) * TIME_HEADWAY))
             (real (ms inp) / 1000)))
           else PID_reset (pid_brake s))"
  using control_law_controllers [OF main_tick_control [OF assms]] by simp

theorem controller_resets_witness:
  "main_tick state_after_approach (hold_w 1000) = Inr (state_after_close, output_after_close)
   \<and> s_distance (perceived output_after_close)
       < STANDSTILL_DISTANCE + car_speed (follower_car state_after_approach) * TIME_HEADWAY
   \<and> \<not> \<bar>s_distance (perceived output_after_close)
           - max TARGET_DISTANCE
               (STANDSTILL_DISTANCE
                  + car_speed (follower_car state_after_approach) * TIME_HEADWAY)\<bar>
         < DEADBAND
   \<and> pid_accel state_after_close = PID_reset (pid_accel state_after_approach)
   \<and> pid_brake state_after_close = pid_brake state_after_approach
   \<and> integral (pid_brake state_after_approach) = 50"
proof -
  have d: "s_distance (perceived output_after_close) = 97"
    by (simp add: output_after_close_def)
  have m: "STANDSTILL_DISTANCE + car_speed (follower_car state_after_approach) * TIME_HEADWAY
             = 17212 / 100"
    by (simp add: state_after_approach_def cfg_simps)
  have t: "TARGET_DISTANCE = 147" "DEADBAND = 6"
    by (simp_all add: cfg_simps)
  have i: "integral (pid_brake state_after_approach) = 50"
    by (simp add: state_after_approach_def)
  from controller_resets [OF pass_after_approach] show ?thesis
    by (simp add: pass_after_approach d m t i)
qed

section \<open>The reaction buffer\<close>

lemma push_all_drop: "push_all xs = drop (length xs - 30) xs"
proof (induction xs rule: rev_induct)
  case Nil
  show ?case by (simp add: push_all_def)
next
  case (snoc x xs)
  have "push_all (xs @ [x]) = reaction_push (push_all xs) x"
    by (simp add: push_all_def)
  also have "\<dots> = reaction_push (drop (length xs - 30) xs) x"
    by (simp add: snoc.IH)
  also have "\<dots> = drop (length (xs @ [x]) - 30) (xs @ [x])"
  proof (cases "length xs < 30")
    case True
    then show ?thesis by (simp add: reaction_push_def max_len_value Let_def)
  next
    case False
    then have n: "Suc (length xs - 30) = length xs - 29" and ne: "drop (length xs - 30) xs \<noteq> []"
      by auto
    have "reaction_push (drop (length xs - 30) xs) x = tl (drop (length xs - 30) xs @ [x])"
      using False by (simp add: reaction_push_def max_len_value Let_def)
    also have "\<dots> = drop (Suc (length xs - 30)) xs @ [x]"
      using ne by (simp add: drop_Suc tl_drop)
    finally show ?thesis using False by (simp add: n)
  qed
  finally show ?case .
qed

lemma push_all_front:
  assumes "xs \<noteq> []"
  shows "buffer_front (push_all xs) = Inr (xs ! (length xs - 30))"
proof -
  have "length xs - 30 < length xs" using assms by (cases xs) auto
  then have "drop (length xs - 30) xs = xs ! (length xs - 30) # drop (Suc (length xs - 30)) xs"
    by (rule Cons_nth_drop_Suc [symmetric])
  then show ?thesis by (simp add: push_all_drop buffer_front_def)
qed

lemma main_loop_buffer:
  "main_loop s inps = Inr (s2, outs) \<Longrightarrow>
   reaction_buffer s2 = foldl reaction_push (reaction_buffer s) (map sample_of outs)"
proof (induction inps arbitrary: s outs)
  case Nil
  then show ?case by simp
next
  case (Cons inp inps)
  show ?case
  proof (cases "outs = []")
    case True
    with Cons.prems have "s2 = s" by (simp only: main_loop_Cons_Nil)
    with True show ?thesis by simp
  next
    case False
    with Cons.prems obtain s1 where t: "main_tick s inp = Inr (s1, hd outs)"
      and r: "main_loop s1 inps = Inr (s2, tl outs)"
      by (rule main_loop_Cons_Inr)
    obtain out outs1 where outs: "outs = out # outs1" using False by (cases outs) auto
    from Cons.IH [OF r] main_tick_buffer(1) [OF t] outs show ?thesis
      by (simp add: sample_of_def)
  qed
qed

lemma main_loop_no_output:
  "main_loop s inps = Inr (s2, []) \<Longrightarrow> s2 = s"
  by (cases inps) (auto split: if_splits sum.splits)

lemma main_loop_last_perceived:
  "main_loop s inps = Inr (s2, outs) \<Longrightarrow> outs \<noteq> [] \<Longrightarrow>
   buffer_front (reaction_buffer s2) = Inr (perceived (last outs))"
proof (induction inps arbitrary: s outs)
  case Nil
  then show ?case by simp
next
  case (Cons inp inps)
  from Cons.prems obtain s1 where t: "main_tick s inp = Inr (s1, hd outs)"
    and r: "main_loop s1 inps = Inr (s2, tl outs)"
    by (rule main_loop_Cons_Inr)
  show ?case
  proof (cases "tl outs = []")
    case True
    with r have "s2 = s1" by (simp add: main_loop_no_output)
    moreover from True Cons.prems(2) have "last outs = hd outs" by (cases outs) auto
    ultimately show ?thesis using main_tick_buffer(2) [OF t] by simp
  next
    case False
    from Cons.IH [OF r False] Cons.prems(2) False show ?thesis
      by (cases outs) auto
  qed
qed

text \<open>
  Claim C5, as stated: before the buffer holds \<^verbatim>\<open>max_len\<close> samples the read
  \<^verbatim>\<open>reaction_buffer[0]\<close> returns the first sample ever pushed, and afterwards it returns
  the sample pushed exactly \<^verbatim>\<open>max_len\<close> passes ago. The first half holds; the second is
  off by one, because the read follows the push inside the same pass and the deque keeps
  \<^verbatim>\<open>max_len = 30\<close> samples, the newest one included. After 31 pushes of the samples
  numbered 1 to 31 the read returns sample 2, pushed 29 passes before the newest; the sample
  pushed 30 passes before it, sample 1, has already been dropped.
\<close>

theorem delay_buffer_counterexample:
  "length numbered_pushes = 31
   \<and> buffer_front (push_all numbered_pushes) = Inr (numbered 2)
   \<and> numbered_pushes ! (31 - 1 - 30) = numbered 1
   \<and> numbered 2 \<noteq> numbered 1"
  by (simp add: push_all_front numbered_pushes_def numbered_def)

text \<open>
  Claim C5, amended: \<^verbatim>\<open>max_len = int(REACTION_TIME * FPS)\<close> is 30; for every non-empty
  sequence of pushes, the read after the last push returns the very first sample as long as
  at most 30 samples have been pushed, and otherwise the sample pushed 29 pushes before the
  newest one (the 30th most recent, index \<open>n - 30\<close> counting from 0); the deque never
  holds more than 30 samples; and this is the sample every pass of a run of the program
  perceives.
\<close>

theorem delay_buffer_read:
  assumes "xs \<noteq> []"
  shows "max_len = 30
     \<and> buffer_front (push_all xs)
         = Inr (if length xs \<le> 30 then xs ! 0 else xs ! (length xs - 30))
     \<and> length (push_all xs) \<le> 30
     \<and> (main_loop initial_state inps = Inr (s, outs) \<and> xs = map sample_of outs
          \<longrightarrow> perceived (last outs)
                = (if length xs \<le> 30 then xs ! 0 else xs ! (length xs - 30)))"
proof -
  have f: "buffer_front (push_all xs) = Inr (if length xs \<le> 30 then xs ! 0 else xs ! (length xs - 30))"
    using push_all_front [OF assms] by (cases "length xs \<le> 30") simp_all
  have "perceived (last outs) = (if length xs \<le> 30 then xs ! 0 else xs ! (length xs - 30))"
    if run: "main_loop initial_state inps = Inr (s, outs)" and xs: "xs = map sample_of outs"
  proof -
    from assms xs have ne: "outs \<noteq> []" by auto
    have "reaction_buffer s = push_all xs"
      using main_loop_buffer [OF run] by (simp add: push_all_def xs initial_state_def)
    with main_loop_last_perceived [OF run ne] f show ?thesis by simp
  qed
  moreover have "length (push_all xs) \<le> 30"
    by (simp add: push_all_drop)
  ultimately show ?thesis
    using f max_len_value by blast
qed

theorem delay_buffer_read_witness:
  "[sample_of output_after_w] \<noteq> []
   \<and> main_loop initial_state [press_w] = Inr (state_after_w, [output_after_w])
   \<and> perceived (last [output_after_w]) = sample_of output_after_w
   \<and> numbered_pushes \<noteq> [] \<and> length numbered_pushes = 31
   \<and> buffer_front (push_all numbered_pushes) = Inr (numbered_pushes ! 1)
   \<and> length (push_all numbered_pushes) \<le> 30"
proof -
  have a: "[sample_of output_after_w] \<noteq> []" by simp
  have b: "numbered_pushes \<noteq> []" and c: "length numbered_pushes = 31"
    by (simp_all add: numbered_pushes_def)
  from delay_buffer_read [OF a, of "[press_w]" state_after_w "[output_after_w]"]
    delay_buffer_read [OF b, of "[]" initial_state "[]"]
  show ?thesis
    by (simp add: first_loop_w b c del: main_loop.simps)
qed

section \<open>The profile and the constants derived from it\<close>

lemma gains_reset: "gains (PID_reset p) = gains p"
  by (simp add: gains_def PID_reset_def)

lemma gains_update: "gains (snd (projr (PID_update p e dt))) = gains p"
  by (simp add: gains_def PID_update_total)

lemma main_tick_gains:
  assumes "main_tick s inp = Inr (s1, out)"
  shows "gains (pid_accel s1) = gains (pid_accel s) \<and> gains (pid_brake s1) = gains (pid_brake s)"
proof -
  note c = control_law_controllers [OF main_tick_control [OF assms]]
  have "gains (pid_accel s1) = gains (pid_accel s)"
    by (subst c(1)) (simp add: gains_reset gains_update)
  moreover have "gains (pid_brake s1) = gains (pid_brake s)"
    by (subst c(2)) (simp add: gains_reset gains_update)
  ultimately show ?thesis by simp
qed

lemma main_loop_gains:
  "main_loop s inps = Inr (s2, outs) \<Longrightarrow>
   gains (pid_accel s2) = gains (pid_accel s) \<and> gains (pid_brake s2) = gains (pid_brake s)"
proof (induction inps arbitrary: s outs)
  case Nil
  then show ?case by simp
next
  case (Cons inp inps)
  show ?case
  proof (cases "outs = []")
    case True
    with Cons.prems have "s2 = s" by (simp only: main_loop_Cons_Nil)
    then show ?thesis by simp
  next
    case False
    with Cons.prems obtain s1 where t: "main_tick s inp = Inr (s1, hd outs)"
      and r: "main_loop s1 inps = Inr (s2, tl outs)"
      by (rule main_loop_Cons_Inr)
    from Cons.IH [OF r] main_tick_gains [OF t] show ?thesis by simp
  qed
qed

text \<open>
  Claim C8. The configured \<^verbatim>\<open>profile\<close> (0.6, the entry \<^verbatim>\<open>"well ok..."\<close> of
  \<^verbatim>\<open>PROFILES\<close>) lies in \<open>[0, 1]\<close>; the constants of lines 32--48 have the values of
  the stated formulas; the two controllers are constructed with the gains
  \<open>(0.6 + 0.02 * profile, 0, 0.2)\<close> and \<open>(1.2 + 0.02 * profile, 0, 0.6)\<close>; and in
  every state a run of the program reaches the gains are still these. The module constants
  are never assigned after line 48, so they are constants of the model as well.
\<close>

theorem profile_derivation:
  "0 \<le> profile \<and> profile \<le> 1
   \<and> TARGET_DISTANCE = 150 - 5 * profile
   \<and> DEADBAND = 6
   \<and> TIME_HEADWAY = 1.8 - profile
   \<and> DESIRED_TTC = 2.6 - profile
   \<and> MIN_TTC = 1.5 - profile
   \<and> TTC_GAIN = 600
   \<and> STANDSTILL_DISTANCE = 25
   \<and> MAX_SPEED = 350 \<and> MAX_ACCEL = 100 \<and> MAX_BRAKE = - 300 \<and> MAX_JERK = 1000
   \<and> REACTION_TIME = 0.5
   \<and> gains (pid_accel initial_state) = (0.6 + 0.02 * profile, 0, 0.2)
   \<and> gains (pid_brake initial_state) = (1.2 + 0.02 * profile, 0, 0.6)
   \<and> (main_loop initial_state inps = Inr (s, outs) \<longrightarrow>
         gains (pid_accel s) = (0.6 + 0.02 * profile, 0, 0.2)
         \<and> gains (pid_brake s) = (1.2 + 0.02 * profile, 0, 0.6))"
proof -
  have g: "gains (pid_accel initial_state) = (0.6 + 0.02 * profile, 0, 0.2)"
    "gains (pid_brake initial_state) = (1.2 + 0.02 * profile, 0, 0.6)"
    by (simp_all add: initial_state_def PID_init_def gains_def)
  have "gains (pid_accel s) = (0.6 + 0.02 * profile, 0, 0.2)
        \<and> gains (pid_brake s) = (1.2 + 0.02 * profile, 0, 0.6)"
    if "main_loop initial_state inps = Inr (s, outs)"
    using main_loop_gains [OF that] g by simp
  moreover have "0 \<le> profile \<and> profile \<le> 1"
    by (simp add: profile_value)
  ultimately show ?thesis
    using g
    by (simp add: TARGET_DISTANCE_def DEADBAND_def TIME_HEADWAY_def DESIRED_TTC_def MIN_TTC_def
        TTC_GAIN_def STANDSTILL_DISTANCE_def MAX_SPEED_def MAX_ACCEL_def MAX_BRAKE_def
        MAX_JERK_def REACTION_TIME_def)
qed

theorem profile_derivation_witness:
  "main_loop initial_state [press_w] = Inr (state_after_w, [output_after_w])
   \<and> gains (pid_accel state_after_w) = (612 / 1000, 0, 2 / 10)
   \<and> gains (pid_brake state_after_w) = (1212 / 1000, 0, 6 / 10)
   \<and> profile = 6 / 10"
proof -
  have "gains (pid_accel state_after_w) = (0.6 + 0.02 * profile, 0, 0.2)
        \<and> gains (pid_brake state_after_w) = (1.2 + 0.02 * profile, 0, 0.6)"
    using profile_derivation [of "[press_w]" state_after_w "[output_after_w]"] first_loop_w
    by blast
  then show ?thesis
    by (simp add: first_loop_w profile_value del: main_loop.simps)
qed


section \<open>Determinism of the control computation\<close>

lemma main_loop_Cons_out:
  "main_loop s (inp # inps) = Inr (s2, out # outs) \<Longrightarrow>
   \<exists>s1. main_tick s inp = Inr (s1, out) \<and> main_loop s1 inps = Inr (s2, outs)"
  by (auto split: if_splits sum.splits)

lemma main_tick_carried:
  assumes t1: "main_tick s inp = Inr (s1, out)"
    and t2: "main_tick s' inp' = Inr (s1', out')"
    and c: "carried s = carried s'"
    and m: "ms inp = ms inp'"
    and d: "true_distance out = true_distance out'"
    and r: "true_rel_speed out = true_rel_speed out'"
  shows "carried s1 = carried s1'"
    and "commanded_accel out = commanded_accel out'"
    and "follower_braking out = follower_braking out'"
    and "proposed_accel out = proposed_accel out'"
    and "perceived out = perceived out'"
proof -
  have b: "reaction_buffer s1 = reaction_buffer s1'"
    using main_tick_buffer(1) [OF t1] main_tick_buffer(1) [OF t2] c d r
    by (simp add: carried_def)
  then show p: "perceived out = perceived out'"
    using main_tick_buffer(2) [OF t1] main_tick_buffer(2) [OF t2] by simp
  have "Inr ((proposed_accel out, pid_accel s1, pid_brake s1), shown_ttc out)
        = (Inr ((proposed_accel out', pid_accel s1', pid_brake s1'), shown_ttc out')
            :: py_error + (law_state \<times> ttc))"
    using main_tick_control [OF t1] main_tick_control [OF t2] c m p
    by (simp add: carried_def)
  then have l: "proposed_accel out = proposed_accel out'" "pid_accel s1 = pid_accel s1'"
    "pid_brake s1 = pid_brake s1'"
    by simp_all
  show "proposed_accel out = proposed_accel out'" by (rule l(1))
  show a: "commanded_accel out = commanded_accel out'"
    using main_tick_jerk(1) [OF t1] main_tick_jerk(1) [OF t2] c m l(1)
    by (simp add: carried_def)
  then show "follower_braking out = follower_braking out'"
    using main_tick_jerk(3) [OF t1] main_tick_jerk(3) [OF t2] by simp
  have "car_speed (follower_car s1) = car_speed (follower_car s1')"
    using main_tick_follower_speed [OF t1] main_tick_follower_speed [OF t2] c m a
    by (simp add: carried_def Car_update_speed)
  then show "carried s1 = carried s1'"
    using b l a main_tick_jerk(2) [OF t1] main_tick_jerk(2) [OF t2]
    by (simp add: carried_def)
qed

lemma main_loop_carried:
  "main_loop s inps = Inr (s2, outs) \<Longrightarrow> main_loop s' inps' = Inr (s2', outs') \<Longrightarrow>
   carried s = carried s' \<Longrightarrow> length outs = length outs' \<Longrightarrow>
   (\<forall>t < length outs. ms (inps ! t) = ms (inps' ! t)
       \<and> true_distance (outs ! t) = true_distance (outs' ! t)
       \<and> true_rel_speed (outs ! t) = true_rel_speed (outs' ! t)) \<Longrightarrow>
   carried s2 = carried s2'
   \<and> (\<forall>t < length outs. commanded_accel (outs ! t) = commanded_accel (outs' ! t)
         \<and> follower_braking (outs ! t) = follower_braking (outs' ! t))"
proof (induction outs arbitrary: s s' inps inps' outs')
  case Nil
  then have "s2 = s" "s2' = s'" by (simp_all add: main_loop_no_output)
  with Nil show ?case by simp
next
  case (Cons out outs)
  from Cons.prems(4) obtain out' outs1' where o': "outs' = out' # outs1'"
    by (cases outs') auto
  from Cons.prems(1) obtain inp inps1 where i: "inps = inp # inps1"
    by (cases inps) auto
  from Cons.prems(2) o' obtain inp' inps1' where i': "inps' = inp' # inps1'"
    by (cases inps') auto
  have "\<exists>s1. main_tick s inp = Inr (s1, out) \<and> main_loop s1 inps1 = Inr (s2, outs)"
    using Cons.prems(1) unfolding i by (rule main_loop_Cons_out)
  then obtain s1 where t: "main_tick s inp = Inr (s1, out)"
    and r: "main_loop s1 inps1 = Inr (s2, outs)"
    by blast
  have "\<exists>s1'. main_tick s' inp' = Inr (s1', out') \<and> main_loop s1' inps1' = Inr (s2', outs1')"
    using Cons.prems(2) unfolding i' o' by (rule main_loop_Cons_out)
  then obtain s1' where t': "main_tick s' inp' = Inr (s1', out')"
    and r': "main_loop s1' inps1' = Inr (s2', outs1')"
    by blast
  from Cons.prems(5) i i' o' have h0: "ms inp = ms inp'"
    "true_distance out = true_distance out'" "true_rel_speed out = true_rel_speed out'"
    by auto
  note step = main_tick_carried [OF t t' Cons.prems(3) h0]
  have hs: "\<forall>t < length outs. ms (inps1 ! t) = ms (inps1' ! t)
       \<and> true_distance (outs ! t) = true_distance (outs1' ! t)
       \<and> true_rel_speed (outs ! t) = true_rel_speed (outs1' ! t)"
  proof (intro allI impI)
    fix t assume "t < length outs"
    then have "Suc t < length (out # outs)" by simp
    with Cons.prems(5) i i' o' show "ms (inps1 ! t) = ms (inps1' ! t)
       \<and> true_distance (outs ! t) = true_distance (outs1' ! t)
       \<and> true_rel_speed (outs ! t) = true_rel_speed (outs1' ! t)"
      by (metis nth_Cons_Suc)
  qed
  from Cons.prems(4) o' have len: "length outs = length outs1'" by simp
  from Cons.IH [OF r r' step(1) len hs]
  have ih: "carried s2 = carried s2'"
    "\<forall>t < length outs. commanded_accel (outs ! t) = commanded_accel (outs1' ! t)
         \<and> follower_braking (outs ! t) = follower_braking (outs1' ! t)"
    by simp_all
  have "commanded_accel ((out # outs) ! t) = commanded_accel (outs' ! t)
         \<and> follower_braking ((out # outs) ! t) = follower_braking (outs' ! t)"
    if "t < length (out # outs)" for t
    using that ih(2) step(2,3) o' by (cases t) simp_all
  with ih(1) show ?case by simp
qed

lemma rest_no_key:
  "main_loop initial_state [no_key 16] = Inr (state_at_rest, [output_at_rest False])"
  by (simp add: initial_state_def no_key_def state_at_rest_def output_at_rest_def
      tick_simps cfg_simps cong: sum.case_cong_weak prod.case_cong_weak)

lemma rest_hold_s:
  "main_loop initial_state [hold_s 16] = Inr (state_at_rest, [output_at_rest True])"
  by (simp add: initial_state_def hold_s_def state_at_rest_def output_at_rest_def
      tick_simps cfg_simps cong: sum.case_cong_weak prod.case_cong_weak)

text \<open>
  Claim C10. The commanded acceleration and the follower's braking indicator of every pass
  are determined by the carried control state (the two controllers, \<^verbatim>\<open>last_accel\<close>, the
  reaction buffer) and by the inputs of the passes (\<^verbatim>\<open>dt\<close>, the follower's speed, the
  true distance and the true relative speed): two runs that start with the same carried
  state and follower speed and see the same \<^verbatim>\<open>dt\<close>, true distance and true relative
  speed in every pass command the same acceleration and show the same braking indicator in
  every pass, and end with the same carried state, whatever else differs (positions, road
  offset, keys). The follower's speed after the first pass need not be assumed equal: it
  follows from the commanded accelerations. In particular a run replayed from the same state
  on the same inputs reproduces its outputs; over exact reals there is no rounding to
  reproduce.
\<close>

theorem replay_determinism:
  assumes "main_loop s inps = Inr (s2, outs)" and "main_loop s' inps' = Inr (s2', outs')"
    and "carried s = carried s'" and "length outs = length outs'"
    and "\<forall>t < length outs. ms (inps ! t) = ms (inps' ! t)
           \<and> true_distance (outs ! t) = true_distance (outs' ! t)
           \<and> true_rel_speed (outs ! t) = true_rel_speed (outs' ! t)"
  shows "carried s2 = carried s2'
     \<and> (\<forall>t < length outs. commanded_accel (outs ! t) = commanded_accel (outs' ! t)
           \<and> follower_braking (outs ! t) = follower_braking (outs' ! t))"
  using assms by (rule main_loop_carried)

theorem replay_determinism_witness:
  "main_loop initial_state [no_key 16] = Inr (state_at_rest, [output_at_rest False])
   \<and> main_loop initial_state [hold_s 16] = Inr (state_at_rest, [output_at_rest True])
   \<and> no_key 16 \<noteq> hold_s 16
   \<and> ms (no_key 16) = ms (hold_s 16)
   \<and> true_distance (output_at_rest False) = true_distance (output_at_rest True)
   \<and> true_rel_speed (output_at_rest False) = true_rel_speed (output_at_rest True)
   \<and> commanded_accel (output_at_rest False) = commanded_accel (output_at_rest True)
   \<and> follower_braking (output_at_rest False) = follower_braking (output_at_rest True)"
proof -
  have h: "\<forall>t < length [output_at_rest False].
            ms ([no_key 16] ! t) = ms ([hold_s 16] ! t)
            \<and> true_distance ([output_at_rest False] ! t) = true_distance ([output_at_rest True] ! t)
            \<and> true_rel_speed ([output_at_rest False] ! t)
                = true_rel_speed ([output_at_rest True] ! t)"
    by (simp add: no_key_def hold_s_def output_at_rest_def)
  have "carried state_at_rest = carried state_at_rest
     \<and> (\<forall>t < length [output_at_rest False].
           commanded_accel ([output_at_rest False] ! t) = commanded_accel ([output_at_rest True] ! t)
           \<and> follower_braking ([output_at_rest False] ! t)
               = follower_braking ([output_at_rest True] ! t))"
    by (rule replay_determinism [OF rest_no_key rest_hold_s _ _ h]) simp_all
  then have "commanded_accel (output_at_rest False) = commanded_accel (output_at_rest True)
     \<and> follower_braking (output_at_rest False) = follower_braking (output_at_rest True)"
    by simp
  with rest_no_key rest_hold_s show ?thesis
    by (simp add: no_key_def hold_s_def output_at_rest_def del: main_loop.simps)
qed

end
